theory Spec2Isabelle
  imports Main "HOL-Library.Sublist" "HOL-Library.Word"
begin

section \<open>JavaScript strings and values\<close>

text \<open>
  A JavaScript string is a sequence of 16-bit code units. \<open>str\<close> gives the code units
  of a literal written in ASCII.

  A value that may or may not be a string is a \<open>jsval\<close>: \<open>JOther x\<close> stands for any
  value whose \<open>typeof\<close> is not \<open>'string'\<close> (undefined, null, a number, an object).
\<close>

type_synonym code_unit = "16 word"

type_synonym jsstring = "code_unit list"

definition cu :: "char \<Rightarrow> code_unit" where
  "cu c = of_char c"

definition str :: "string \<Rightarrow> jsstring" where
  "str s = map cu s"

datatype 'a jsval = JString jsstring | JOther 'a

datatype js_error = JsError jsstring

text \<open>
  The code units that \<open>String.prototype.trim\<close> removes: the white space and the line
  terminators of ECMAScript (tab, line feed, vertical tab, form feed, carriage return,
  space, no-break space, the space separators of Unicode, line and paragraph separator,
  and the byte order mark).
\<close>

definition is_ws :: "code_unit \<Rightarrow> bool" where
  "is_ws c =
     (c \<in> set [0x0009, 0x000A, 0x000B, 0x000C, 0x000D, 0x0020, 0x00A0, 0x1680,
               0x2000, 0x2001, 0x2002, 0x2003, 0x2004, 0x2005, 0x2006, 0x2007,
               0x2008, 0x2009, 0x200A, 0x2028, 0x2029, 0x202F, 0x205F, 0x3000,
               0xFEFF])"

definition trim :: "jsstring \<Rightarrow> jsstring" where
  "trim s = rev (dropWhile is_ws (rev (dropWhile is_ws s)))"

text \<open>
  \<open>s.split(sep)\<close> for a separator of one code unit. The result is never empty:
  \<open>''.split('|')\<close> is \<open>['']\<close>, and \<open>'a|'.split('|')\<close> is \<open>['a', '']\<close>.
\<close>

fun split_js :: "code_unit \<Rightarrow> jsstring \<Rightarrow> jsstring list" where
  "split_js sep [] = [[]]"
| "split_js sep (c # cs) =
     (if c = sep then [] # split_js sep cs
      else (case split_js sep cs of
              [] \<Rightarrow> [[c]]
            | w # ws \<Rightarrow> (c # w) # ws))"

text \<open>\<open>xs.join(sep)\<close>.\<close>

fun join_js :: "jsstring \<Rightarrow> jsstring list \<Rightarrow> jsstring" where
  "join_js sep [] = []"
| "join_js sep [x] = x"
| "join_js sep (x # y # ys) = x @ sep @ join_js sep (y # ys)"

text \<open>A string is truthy when it is not empty; \<open>filter(x => x)\<close> keeps the truthy ones.\<close>

definition truthy :: "jsstring \<Rightarrow> bool" where
  "truthy s = (s \<noteq> [])"

section \<open>The browser and the engine\<close>

text \<open>
  A DOM node is an element with its local name, its attributes (a name has at most one
  value), its children and, for a \<open>template\<close> element, its template contents; or a text
  node. The parser puts what is written inside a \<open>template\<close> element into the template
  contents, which are not children of the element.
\<close>

datatype node =
  Element (tag: jsstring) (attrs: "jsstring \<Rightarrow> jsstring option")
    (children: "node list") (template_contents: "node list")
| TextNode jsstring

text \<open>
  What the code takes from its environment:
  \<^item> \<open>toUpperCase\<close> and \<open>toLowerCase\<close>, the case mappings of Unicode;
  \<^item> \<open>table_exception\<close>, the exception, if any, that the engine raises while the
    \<open>try\<close> block of \<open>convertMarkdownToTable\<close> runs on a given text. No operation of
    the block raises on a string by the definition of the language; what is left are
    the engine's own errors, such as the \<open>RangeError\<close> for a string that grows past
    the engine's limit;
  \<^item> \<open>parse_fragment\<close> and \<open>serialize_fragment\<close>, the browser's HTML parser
    (\<open>tempDiv.innerHTML = html\<close>) and serialiser (\<open>tempDiv.innerHTML\<close>).
\<close>

record runtime =
  toUpperCase :: "jsstring \<Rightarrow> jsstring"
  toLowerCase :: "jsstring \<Rightarrow> jsstring"
  table_exception :: "jsstring \<Rightarrow> js_error option"
  parse_fragment :: "jsstring \<Rightarrow> node list"
  serialize_fragment :: "node list \<Rightarrow> jsstring"

text \<open>
  On text in the ASCII range the case mappings of Unicode change the 26 letters and
  nothing else. \<open>ascii_case rt\<close> says that the runtime's mappings do so.
\<close>

definition ascii_upper :: "code_unit \<Rightarrow> code_unit" where
  "ascii_upper c = (if 0x61 \<le> c \<and> c \<le> 0x7A then c - 0x20 else c)"

definition ascii_lower :: "code_unit \<Rightarrow> code_unit" where
  "ascii_lower c = (if 0x41 \<le> c \<and> c \<le> 0x5A then c + 0x20 else c)"

definition ascii_only :: "jsstring \<Rightarrow> bool" where
  "ascii_only s = list_all (\<lambda>c. c < 0x80) s"

definition ascii_case :: "runtime \<Rightarrow> bool" where
  "ascii_case rt =
     (\<forall>s. ascii_only s \<longrightarrow>
          toUpperCase rt s = map ascii_upper s \<and> toLowerCase rt s = map ascii_lower s)"

text \<open>
  A runtime for the examples: it maps the ASCII letters only, raises nothing, and its
  parser and serialiser are not used.
\<close>

definition ascii_runtime :: runtime where
  "ascii_runtime =
     \<lparr>toUpperCase = map ascii_upper, toLowerCase = map ascii_lower,
      table_exception = (\<lambda>text. None),
      parse_fragment = (\<lambda>html. []), serialize_fragment = (\<lambda>forest. [])\<rparr>"

section \<open>Text utilities (markdownUtils)\<close>

text \<open>
  \<open>capitalizeWord\<close>: a falsy or non-string word gives the empty string; otherwise
  \<open>word.charAt(0).toUpperCase() + word.slice(1).toLowerCase()\<close>.
\<close>

fun capitalizeWord :: "runtime \<Rightarrow> 'a jsval \<Rightarrow> jsstring" where
  "capitalizeWord rt (JOther x) = []"
| "capitalizeWord rt (JString word) =
     (if \<not> truthy word then []
      else toUpperCase rt (take 1 word) @ toLowerCase rt (drop 1 word))"

text \<open>
  \<open>text.replace(/^_+|_+$/g, '')\<close> removes the run of underscores at the start and the
  run at the end; \<open>replace(/_+/g, '_')\<close> turns every run of underscores into one.
\<close>

definition strip_underscores :: "jsstring \<Rightarrow> jsstring" where
  "strip_underscores s =
     rev (dropWhile (\<lambda>c. c = cu CHR ''_'') (rev (dropWhile (\<lambda>c. c = cu CHR ''_'') s)))"

fun collapse_underscores :: "jsstring \<Rightarrow> jsstring" where
  "collapse_underscores [] = []"
| "collapse_underscores [c] = [c]"
| "collapse_underscores (c # d # cs) =
     (if c = cu CHR ''_'' \<and> d = cu CHR ''_'' then collapse_underscores (d # cs)
      else c # collapse_underscores (d # cs))"

text \<open>\<open>convertSnakeCaseToTitle\<close> on a string, and on any value.\<close>

definition snake_to_title :: "runtime \<Rightarrow> jsstring \<Rightarrow> jsstring" where
  "snake_to_title rt text =
     (if \<not> truthy text then text
      else if cu CHR ''_'' \<notin> set text then text
      else let cleaned = collapse_underscores (strip_underscores text)
           in join_js (str '' '')
                (map (\<lambda>word. capitalizeWord rt (JString word :: unit jsval))
                   (filter (\<lambda>word. length word > 0) (split_js (cu CHR ''_'') cleaned))))"

fun convertSnakeCaseToTitle :: "runtime \<Rightarrow> 'a jsval \<Rightarrow> 'a jsval" where
  "convertSnakeCaseToTitle rt (JOther x) = JOther x"
| "convertSnakeCaseToTitle rt (JString text) = JString (snake_to_title rt text)"

text \<open>
  The words of a snake-case name as the specification describes them: the maximal
  non-empty runs of code units other than the underscore (U+005F), from left to right.
\<close>

function segments :: "jsstring \<Rightarrow> jsstring list" where
  "segments [] = []"
| "segments (c # cs) =
     (if c = 0x5F then segments cs
      else takeWhile (\<lambda>x. x \<noteq> 0x5F) (c # cs)
             # segments (dropWhile (\<lambda>x. x \<noteq> 0x5F) cs))"
  by pat_completeness auto
termination
  by (relation "measure length") (auto simp: less_Suc_eq_le length_dropWhile_le)

section \<open>Table renderer\<close>

text \<open>
  \<open>escapeHtml\<close> writes the text into a DOM text node and reads the element's
  \<open>innerHTML\<close> back. The serialisation of a text node replaces the ampersand, the
  no-break space and the two angle brackets. A non-string gives the empty string.
\<close>

fun escape_char :: "code_unit \<Rightarrow> jsstring" where
  "escape_char c =
     (if c = cu CHR ''&'' then str ''&amp;''
      else if c = 0x00A0 then str ''&nbsp;''
      else if c = cu CHR ''<'' then str ''&lt;''
      else if c = cu CHR ''>'' then str ''&gt;''
      else [c])"

fun escapeHtml :: "'a jsval \<Rightarrow> jsstring" where
  "escapeHtml (JOther x) = []"
| "escapeHtml (JString text) = concat (map escape_char text)"

definition no_table_data :: jsstring where
  \<open>no_table_data = str ''<p class="text-gray-500 text-sm">No table data available</p>''\<close>

definition pre_fallback :: "jsstring \<Rightarrow> jsstring" where
  \<open>pre_fallback markdown =
     str ''<pre class="bg-gray-100 p-3 rounded text-sm overflow-x-auto">''
       @ escapeHtml (JString markdown :: unit jsval) @ str ''</pre>''\<close>

definition th_cell :: "jsstring \<Rightarrow> jsstring" where
  \<open>th_cell header =
     str ''<th class="bg-gray-50 text-left font-semibold text-gray-900 px-4 py-3 border-b border-gray-200">''
       @ escapeHtml (JString header :: unit jsval) @ str ''</th>''\<close>

definition td_cell :: "jsstring \<Rightarrow> jsstring" where
  \<open>td_cell cellValue =
     str ''<td class="px-4 py-3 border-b border-gray-200 text-gray-700">''
       @ escapeHtml (JString cellValue :: unit jsval) @ str ''</td>''\<close>

definition tr_open :: "nat \<Rightarrow> jsstring" where
  \<open>tr_open index =
     str ''<tr class="'' @ (if index mod 2 = 0 then str ''bg-white'' else str ''bg-gray-50'')
       @ str '' hover:bg-gray-100">''\<close>

text \<open>\<open>cells[i] || ''\<close>: an index past the end reads \<open>undefined\<close>, which is falsy.\<close>

definition cell_at :: "jsstring list \<Rightarrow> nat \<Rightarrow> jsstring" where
  "cell_at cells i = (if i < length cells \<and> truthy (cells ! i) then cells ! i else [])"

text \<open>\<open>line.split('|').map(c => c.trim()).filter(c => c)\<close>.\<close>

definition pipe_cells :: "jsstring \<Rightarrow> jsstring list" where
  "pipe_cells line = filter truthy (map trim (split_js (cu CHR ''|'') line))"

text \<open>The loop \<open>for (let i = 0; i < headers.length; i++)\<close>, appending to \<open>html\<close>.\<close>

definition cells_loop :: "jsstring list \<Rightarrow> jsstring list \<Rightarrow> jsstring \<Rightarrow> jsstring" where
  "cells_loop headers cells html =
     fold (\<lambda>i html. html @ td_cell (cell_at cells i)) [0..<length headers] html"

text \<open>The body of \<open>dataLines.forEach((line, index) => ...)\<close>.\<close>

definition data_line_step :: "jsstring list \<Rightarrow> jsstring \<times> nat \<Rightarrow> jsstring \<Rightarrow> jsstring" where
  "data_line_step headers li html =
     (case li of (line, index) \<Rightarrow>
        if truthy (trim line) then
          (let cells = pipe_cells line in
           if length cells > 0
           then cells_loop headers cells (html @ tr_open index) @ str ''</tr>''
           else html)
        else html)"

definition table_headers :: "runtime \<Rightarrow> jsstring list \<Rightarrow> jsstring list" where
  "table_headers rt lines =
     map (snake_to_title rt)
       (filter truthy (map trim (split_js (cu CHR ''|'') (lines ! 0))))"

text \<open>
  What the \<open>try\<close> block of \<open>convertMarkdownToTable\<close> returns when it runs to its end
  (\<open>lines[0]\<close> exists, as \<open>split\<close> never returns an empty array).
\<close>

definition markdown_table :: "runtime \<Rightarrow> jsstring \<Rightarrow> jsstring" where
  \<open>markdown_table rt markdown =
     (let lines = split_js 0x000A (trim markdown) in
      if length lines < 2 then pre_fallback markdown
      else
        let headers = table_headers rt lines;
            dataLines = drop 2 lines
        in if length headers = 0 then pre_fallback markdown
           else
             let html = str ''<div class="overflow-x-auto"><table class="response-table">'';
                 html = html @ str ''<thead><tr>'';
                 html = fold (\<lambda>header html. html @ th_cell header) headers html;
                 html = html @ str ''</tr></thead>'';
                 html = html @ str ''<tbody>'';
                 html = fold (data_line_step headers)
                          (zip dataLines [0..<length dataLines]) html;
                 html = html @ str ''</tbody></table></div>''
             in html)\<close>

text \<open>
  The \<open>try\<close> block: \<open>Inl\<close> is the exception that leaves it, \<open>Inr\<close> the value it returns.
\<close>

definition table_try :: "runtime \<Rightarrow> jsstring \<Rightarrow> js_error + jsstring" where
  "table_try rt markdown =
     (case table_exception rt markdown of
        Some e \<Rightarrow> Inl e
      | None \<Rightarrow> Inr (markdown_table rt markdown))"

text \<open>
  \<open>convertMarkdownToTable\<close>: the first guard, then \<open>try\<close> and \<open>catch\<close>. The result is
  \<open>Inr\<close> of the returned string, or \<open>Inl\<close> of an exception that reaches the caller.
\<close>

fun convertMarkdownToTable :: "runtime \<Rightarrow> 'a jsval \<Rightarrow> js_error + jsstring" where
  "convertMarkdownToTable rt (JOther x) = Inr no_table_data"
| "convertMarkdownToTable rt (JString markdown) =
     (if \<not> truthy markdown then Inr no_table_data
      else (case table_try rt markdown of
              Inr html \<Rightarrow> Inr html
            | Inl e \<Rightarrow> Inr (pre_fallback markdown)))"

text \<open>
  The table as the specification describes it. Escaped text: the ampersand, the
  no-break space and the angle brackets are replaced by their entities, every other code
  unit is kept. A data row: the cells cut, or padded with empty cells, to the number of
  headers. The rows that are emitted: one for each data line that has a cell, with the
  position of the line. The table: a head with the escaped headers, and a body with the
  rows.
\<close>

fun html_escaped :: "jsstring \<Rightarrow> jsstring" where
  "html_escaped [] = []"
| "html_escaped (c # cs) =
     (if c = 0x26 then [0x26, 0x61, 0x6D, 0x70, 0x3B]
      else if c = 0xA0 then [0x26, 0x6E, 0x62, 0x73, 0x70, 0x3B]
      else if c = 0x3C then [0x26, 0x6C, 0x74, 0x3B]
      else if c = 0x3E then [0x26, 0x67, 0x74, 0x3B]
      else [c]) @ html_escaped cs"

definition fit_row :: "nat \<Rightarrow> jsstring list \<Rightarrow> jsstring list" where
  "fit_row n cells = take n cells @ replicate (n - length cells) []"

definition emitted_rows :: "jsstring list \<Rightarrow> (jsstring list \<times> nat) list" where
  "emitted_rows dataLines =
     filter (\<lambda>(cells, index). cells \<noteq> [])
       (map (\<lambda>(line, index). (pipe_cells line, index))
          (zip dataLines [0..<length dataLines]))"

definition row_html :: "nat \<Rightarrow> jsstring list \<times> nat \<Rightarrow> jsstring" where
  \<open>row_html n ci =
     (case ci of (cells, index) \<Rightarrow>
        str ''<tr class="''
          @ (if even index then str ''bg-white'' else str ''bg-gray-50'')
          @ str '' hover:bg-gray-100">''
          @ concat (map (\<lambda>v. str ''<td class="px-4 py-3 border-b border-gray-200 text-gray-700">''
                               @ html_escaped v @ str ''</td>'')
                      (fit_row n cells))
          @ str ''</tr>'')\<close>

definition table_html :: "jsstring list \<Rightarrow> (jsstring list \<times> nat) list \<Rightarrow> jsstring" where
  \<open>table_html headers rows =
     str ''<div class="overflow-x-auto"><table class="response-table"><thead><tr>''
       @ concat (map (\<lambda>h. str ''<th class="bg-gray-50 text-left font-semibold text-gray-900 px-4 py-3 border-b border-gray-200">''
                            @ html_escaped h @ str ''</th>'')
                   headers)
       @ str ''</tr></thead><tbody>''
       @ concat (map (row_html (length headers)) rows)
       @ str ''</tbody></table></div>''\<close>

text \<open>What one data line adds to the body: its row, or nothing when it has no cell.\<close>

definition row_or_nothing :: "nat \<Rightarrow> jsstring \<times> nat \<Rightarrow> jsstring" where
  "row_or_nothing n li =
     (case li of (line, index) \<Rightarrow>
        if pipe_cells line = [] then [] else row_html n (pipe_cells line, index))"

section \<open>HTML sanitizer\<close>

text \<open>
  The sanitizer works on the DOM that the browser builds from the fragment and returns
  the browser's serialisation of what is left.
\<close>

definition dangerousElements :: "jsstring list" where
  "dangerousElements =
     [str ''script'', str ''iframe'', str ''object'', str ''embed'', str ''link'', str ''style'']"

definition dangerousAttributes :: "jsstring list" where
  "dangerousAttributes =
     [str ''onload'', str ''onerror'', str ''onclick'', str ''onmouseover'', str ''onfocus'',
      str ''onblur'']"

text \<open>
  \<open>tempDiv.querySelectorAll(tag).forEach(el => el.remove())\<close>: every element of that
  name that is a descendant of \<open>tempDiv\<close> leaves the tree, with everything below it.
  \<open>querySelectorAll\<close> follows the children of an element; it does not enter template
  contents.
\<close>

fun remove_tag :: "jsstring \<Rightarrow> node \<Rightarrow> node list" where
  "remove_tag t (TextNode s) = [TextNode s]"
| "remove_tag t (Element n a cs tc) =
     (if n = t then [] else [Element n a (concat (map (remove_tag t) cs)) tc])"

definition remove_dangerous :: "node list \<Rightarrow> node list" where
  "remove_dangerous forest =
     fold (\<lambda>t forest. concat (map (remove_tag t) forest)) dangerousElements forest"

definition removeAttribute ::
  "jsstring \<Rightarrow> (jsstring \<Rightarrow> jsstring option) \<Rightarrow> (jsstring \<Rightarrow> jsstring option)" where
  "removeAttribute attr a = a(attr := None)"

definition remove_javascript ::
  "jsstring \<Rightarrow> (jsstring \<Rightarrow> jsstring option) \<Rightarrow> (jsstring \<Rightarrow> jsstring option)" where
  "remove_javascript attr a =
     (case a attr of
        None \<Rightarrow> a
      | Some v \<Rightarrow> if prefix (str ''javascript:'') v then removeAttribute attr a else a)"

text \<open>The body of \<open>allElements.forEach(el => ...)\<close>, on the attributes of one element.\<close>

definition clean_attrs :: "(jsstring \<Rightarrow> jsstring option) \<Rightarrow> (jsstring \<Rightarrow> jsstring option)" where
  "clean_attrs a =
     (let a = fold (\<lambda>attr a. if a attr \<noteq> None then removeAttribute attr a else a)
                dangerousAttributes a;
          a = remove_javascript (str ''href'') a;
          a = remove_javascript (str ''src'') a
      in a)"

text \<open>
  \<open>tempDiv.querySelectorAll('*').forEach(...)\<close>: the elements that are descendants of
  \<open>tempDiv\<close>; template contents are not among them.
\<close>

fun clean_node :: "node \<Rightarrow> node" where
  "clean_node (TextNode s) = TextNode s"
| "clean_node (Element n a cs tc) = Element n (clean_attrs a) (map clean_node cs) tc"

definition sanitize_dom :: "node list \<Rightarrow> node list" where
  "sanitize_dom forest = map clean_node (remove_dangerous forest)"

definition sanitizeHtml :: "runtime \<Rightarrow> 'a jsval \<Rightarrow> jsstring" where
  "sanitizeHtml rt html =
     (case html of
        JOther x \<Rightarrow> []
      | JString h \<Rightarrow>
          if \<not> truthy h then []
          else serialize_fragment rt (sanitize_dom (parse_fragment rt h)))"

text \<open>The elements of a tree that \<open>querySelectorAll('*')\<close> lists.\<close>

fun elements_of :: "node \<Rightarrow> node list" where
  "elements_of (TextNode s) = []"
| "elements_of (Element n a cs tc) = Element n a cs tc # concat (map elements_of cs)"

definition all_elements :: "node list \<Rightarrow> node list" where
  "all_elements forest = concat (map elements_of forest)"

text \<open>
  The elements that the serialisation of a tree writes out: for a \<open>template\<close> element
  the serialiser continues with the template contents, for every other element with the
  children.
\<close>

fun written_elements :: "node \<Rightarrow> node list" where
  "written_elements (TextNode s) = []"
| "written_elements (Element n a cs tc) =
     Element n a cs tc
       # (if n = str ''template'' then concat (map written_elements tc)
          else concat (map written_elements cs))"

definition all_written :: "node list \<Rightarrow> node list" where
  "all_written forest = concat (map written_elements forest)"

section \<open>Session and connection manager (useSocket)\<close>

datatype status = Disconnected | Connecting | Connected | Reconnecting | Error | Failed

datatype packet =
  CreateSession jsstring
| UserQuery jsstring "jsstring option"
| Ping
| GetSessionInfo

text \<open>
  The socket.io socket, as far as the hook uses it: the packets it was asked to send,
  and whether \<open>disconnect()\<close> was called on it.
\<close>

record sock =
  emitted :: "packet list"
  torn_down :: bool

record hook_state =
  socket :: "sock option"
  isConnected :: bool
  connectionStatus :: status
  currentSessionId :: "jsstring option"
  reconnectAttempts :: nat

definition maxReconnectAttempts :: nat where
  "maxReconnectAttempts = 5"

definition initial_hook :: hook_state where
  "initial_hook =
     \<lparr>socket = None, isConnected = False, connectionStatus = Disconnected,
      currentSessionId = None, reconnectAttempts = 0\<rparr>"

definition emit :: "packet \<Rightarrow> sock \<Rightarrow> sock" where
  "emit p k = k\<lparr>emitted := emitted k @ [p]\<rparr>"

definition socket_disconnect :: "sock \<Rightarrow> sock" where
  "socket_disconnect k = k\<lparr>torn_down := True\<rparr>"

definition connect :: "hook_state \<Rightarrow> hook_state" where
  "connect s =
     s\<lparr>connectionStatus := Connecting,
       socket := Some \<lparr>emitted = [], torn_down = False\<rparr>\<rparr>"

text \<open>
  The handlers that \<open>connect\<close> registers on the new socket. The session id that
  \<open>generateSessionId\<close> draws from the clock and the random generator is an argument.
\<close>

definition on_connect :: "jsstring \<Rightarrow> hook_state \<Rightarrow> hook_state" where
  "on_connect sessionId s =
     s\<lparr>isConnected := True, connectionStatus := Connected, reconnectAttempts := 0,
       currentSessionId := Some sessionId,
       socket := map_option (emit (CreateSession sessionId)) (socket s)\<rparr>"

definition on_connect_error :: "hook_state \<Rightarrow> hook_state" where
  "on_connect_error s =
     (let s = s\<lparr>isConnected := False, connectionStatus := Error,
                 reconnectAttempts := reconnectAttempts s + 1\<rparr>
      in if reconnectAttempts s \<ge> maxReconnectAttempts
         then s\<lparr>connectionStatus := Failed,
                 socket := map_option socket_disconnect (socket s)\<rparr>
         else s)"

definition on_disconnect :: "jsstring \<Rightarrow> hook_state \<Rightarrow> hook_state" where
  "on_disconnect reason s =
     (let s = s\<lparr>isConnected := False, connectionStatus := Disconnected\<rparr>
      in if reason = str ''io client disconnect''
         then s\<lparr>connectionStatus := Disconnected\<rparr>
         else s\<lparr>connectionStatus := Reconnecting\<rparr>)"

definition on_reconnect :: "nat \<Rightarrow> hook_state \<Rightarrow> hook_state" where
  "on_reconnect attemptNumber s =
     s\<lparr>isConnected := True, connectionStatus := Connected, reconnectAttempts := 0\<rparr>"

definition on_reconnect_failed :: "hook_state \<Rightarrow> hook_state" where
  "on_reconnect_failed s = s\<lparr>connectionStatus := Failed\<rparr>"

definition on_connection_established :: "jsstring option \<Rightarrow> hook_state \<Rightarrow> hook_state" where
  "on_connection_established session_id s =
     (case session_id of
        None \<Rightarrow> s
      | Some sid \<Rightarrow> if truthy sid then s\<lparr>currentSessionId := Some sid\<rparr> else s)"

datatype transport_event =
  EvConnect jsstring
| EvConnectError
| EvDisconnect jsstring
| EvReconnect nat
| EvReconnectFailed
| EvConnectionEstablished "jsstring option"

fun handle_event :: "transport_event \<Rightarrow> hook_state \<Rightarrow> hook_state" where
  "handle_event (EvConnect sessionId) s = on_connect sessionId s"
| "handle_event EvConnectError s = on_connect_error s"
| "handle_event (EvDisconnect reason) s = on_disconnect reason s"
| "handle_event (EvReconnect attemptNumber) s = on_reconnect attemptNumber s"
| "handle_event EvReconnectFailed s = on_reconnect_failed s"
| "handle_event (EvConnectionEstablished session_id) s = on_connection_established session_id s"

text \<open>
  The transport library (socket.io-client, a dependency of the client) decides which
  lifecycle events it raises. Its contract for a socket that the client closed with
  \<open>disconnect()\<close>: the socket leaves its manager, the manager stops its reconnection
  schedule, and none of the handlers registered on the socket runs again. Events reach
  the handlers only through a socket that exists and was not torn down.
\<close>

definition deliver :: "transport_event \<Rightarrow> hook_state \<Rightarrow> hook_state" where
  "deliver ev s =
     (case socket s of
        None \<Rightarrow> s
      | Some k \<Rightarrow> if torn_down k then s else handle_event ev s)"

definition run_events :: "transport_event list \<Rightarrow> hook_state \<Rightarrow> hook_state" where
  "run_events evs s = fold deliver evs s"

text \<open>
  The state in which the connection has failed for good: status failed, not connected,
  and the socket torn down.
\<close>

definition failed_closed :: "hook_state \<Rightarrow> bool" where
  "failed_closed s =
     (connectionStatus s = Failed \<and> \<not> isConnected s
      \<and> (case socket s of None \<Rightarrow> False | Some k \<Rightarrow> torn_down k))"

definition disconnect :: "hook_state \<Rightarrow> hook_state" where
  "disconnect s =
     (case socket s of
        None \<Rightarrow> s
      | Some k \<Rightarrow>
          s\<lparr>socket := None, isConnected := False, connectionStatus := Disconnected,
            currentSessionId := None\<rparr>)"

definition createNewSession :: "jsstring \<Rightarrow> hook_state \<Rightarrow> hook_state" where
  "createNewSession sessionId s =
     (case socket s of
        None \<Rightarrow> s
      | Some k \<Rightarrow>
          if isConnected s
          then s\<lparr>currentSessionId := Some sessionId,
                  socket := Some (emit (CreateSession sessionId) k)\<rparr>
          else s)"

text \<open>
  \<open>socket.emit\<close> inside \<open>try\<close>: socket.io queues the packet; the \<open>catch\<close> branch of
  \<open>sendQuery\<close> is the \<open>Inl\<close> case of the result.
\<close>

definition socket_emit :: "packet \<Rightarrow> sock \<Rightarrow> js_error + sock" where
  "socket_emit p k = Inr (emit p k)"

text \<open>
  \<open>sendQuery\<close>: the promise's executor runs at once; \<open>Inl\<close> is a rejected promise, and
  \<open>Inr\<close> a resolved one together with the hook after the emission.
\<close>

definition sendQuery :: "jsstring \<Rightarrow> hook_state \<Rightarrow> js_error + hook_state" where
  "sendQuery query s =
     (case socket s of
        None \<Rightarrow> Inl (JsError (str ''Not connected to server''))
      | Some k \<Rightarrow>
          if \<not> isConnected s then Inl (JsError (str ''Not connected to server''))
          else if \<not> truthy (trim query) then Inl (JsError (str ''Query cannot be empty''))
          else (case socket_emit (UserQuery (trim query) (currentSessionId s)) k of
                  Inl e \<Rightarrow> Inl e
                | Inr k' \<Rightarrow> Inr (s\<lparr>socket := Some k'\<rparr>)))"

section \<open>Response envelope and its display (DataSummaryResult)\<close>

record envelope =
  success :: bool
  html_summary :: "jsstring option"
  key_insights :: "jsstring list option"
  markdown_data :: "jsstring option"
  summary_time_ms :: "int option"
  prompt_tokens :: "int option"
  completion_tokens :: "int option"
  data_points_analyzed :: "int option"
  error :: "jsstring option"
  summary :: "jsstring option"

text \<open>A field that is missing, or holds the empty string, is falsy.\<close>

definition present :: "jsstring option \<Rightarrow> bool" where
  "present f = (case f of None \<Rightarrow> False | Some v \<Rightarrow> truthy v)"

definition no_table_sentinel :: jsstring where
  "no_table_sentinel = str ''No data table available for non-analytics queries''"

definition unknown_error :: jsstring where
  "unknown_error = str ''An unknown error occurred while processing your request.''"

text \<open>\<open>parseInsights\<close>: each insight with its position.\<close>

definition parseInsights :: "jsstring list \<Rightarrow> (nat \<times> jsstring) list" where
  "parseInsights insights = zip [0..<length insights] insights"

text \<open>
  What the component puts into the response body: on success the sections that are
  rendered (\<open>None\<close> for a section that is left out), otherwise the error block with its
  text. The table section holds what the call of \<open>convertMarkdownToTable\<close> gives. The
  footer with the processing statistics is not part of the model.
\<close>

datatype body =
  SuccessBody
    (html_summary_section: "jsstring option")
    (key_insights_section: "(nat \<times> jsstring) list option")
    (data_table_section: "(js_error + jsstring) option")
    (plain_summary_section: "jsstring option")
| ErrorBody jsstring

definition response_body :: "runtime \<Rightarrow> envelope \<Rightarrow> body" where
  "response_body rt data =
     (if success data then
        SuccessBody
          (if present (html_summary data)
           then Some (sanitizeHtml rt (JString (the (html_summary data)) :: unit jsval))
           else None)
          (case key_insights data of
             None \<Rightarrow> None
           | Some ins \<Rightarrow> if length ins > 0 then Some (parseInsights ins) else None)
          (if present (markdown_data data) \<and> markdown_data data \<noteq> Some no_table_sentinel
           then Some (convertMarkdownToTable rt
                        (JString (the (markdown_data data)) :: unit jsval))
           else None)
          (if \<not> present (html_summary data) \<and> present (summary data)
           then summary data else None)
      else
        ErrorBody
          (if present (error data) then the (error data)
           else if present (summary data) then the (summary data)
           else unknown_error))"

datatype view = NoResponseData | Response bool body

definition DataSummaryResult :: "runtime \<Rightarrow> envelope option \<Rightarrow> view" where
  "DataSummaryResult rt data =
     (case data of
        None \<Rightarrow> NoResponseData
      | Some d \<Rightarrow> Response (success d) (response_body rt d))"

section \<open>Conversation controller (App)\<close>

datatype msg_type = User | Assistant | ErrorMessage

datatype content = Text jsstring | Envelope envelope

record message =
  msg_id :: nat
  msg_type :: msg_type
  msg_content :: content
  msg_timestamp :: nat

text \<open>
  \<open>loadingTimeout\<close> is the timer that \<open>loadingTimeoutRef\<close> holds: \<open>None\<close> when no timer
  is armed, \<open>Some d\<close> for a timer armed with a delay of \<open>d\<close> milliseconds.
\<close>

record app_state =
  messages :: "message list"
  currentInput :: jsstring
  isLoading :: bool
  loadingTimeout :: "nat option"
  hook :: hook_state

definition timeout_notice :: jsstring where
  "timeout_notice = str ''Request timed out. Please try again.''"

definition send_failed_notice :: jsstring where
  "send_failed_notice = str ''Failed to send message. Please try again.''"

definition query_error_default :: jsstring where
  "query_error_default = str ''An error occurred while processing your request.''"

text \<open>
  \<open>handleSendMessage\<close>; \<open>now\<close> is the value of the clock (\<open>Date.now()\<close>). The awaited
  \<open>sendQuery\<close> either resolves, or rejects into the \<open>catch\<close> branch.
\<close>

definition handleSendMessage :: "nat \<Rightarrow> jsstring \<Rightarrow> app_state \<Rightarrow> app_state" where
  "handleSendMessage now message s =
     (if \<not> truthy (trim message) \<or> \<not> isConnected (hook s) then s
      else
        let userMessage = \<lparr>msg_id = now, msg_type = User, msg_content = Text message,
                            msg_timestamp = now\<rparr>;
            s = s\<lparr>isLoading := True, messages := messages s @ [userMessage],
                  currentInput := [], loadingTimeout := Some 30000\<rparr>
        in case sendQuery message (hook s) of
             Inr h \<Rightarrow> s\<lparr>hook := h\<rparr>
           | Inl e \<Rightarrow>
               let errorMessage = \<lparr>msg_id = now + 1, msg_type = ErrorMessage,
                                    msg_content = Text send_failed_notice,
                                    msg_timestamp = now\<rparr>
               in s\<lparr>loadingTimeout := None, isLoading := False,
                     messages := messages s @ [errorMessage]\<rparr>)"

text \<open>The callback of the safety timer.\<close>

definition on_loading_timeout :: "nat \<Rightarrow> app_state \<Rightarrow> app_state" where
  "on_loading_timeout now s =
     (let timeoutMessage = \<lparr>msg_id = now + 2, msg_type = ErrorMessage,
                             msg_content = Text timeout_notice, msg_timestamp = now\<rparr>
      in s\<lparr>isLoading := False, loadingTimeout := None,
            messages := messages s @ [timeoutMessage]\<rparr>)"

definition handleQueryResponse :: "nat \<Rightarrow> envelope \<Rightarrow> app_state \<Rightarrow> app_state" where
  "handleQueryResponse now data s =
     (let responseMessage = \<lparr>msg_id = now, msg_type = Assistant,
                              msg_content = Envelope data, msg_timestamp = now\<rparr>
      in s\<lparr>loadingTimeout := None, isLoading := False,
            messages := messages s @ [responseMessage]\<rparr>)"

definition handleQueryError :: "nat \<Rightarrow> jsstring option \<Rightarrow> app_state \<Rightarrow> app_state" where
  "handleQueryError now data_error s =
     (let errorMessage = \<lparr>msg_id = now, msg_type = ErrorMessage,
                           msg_content = Text (if present data_error then the data_error
                                               else query_error_default),
                           msg_timestamp = now\<rparr>
      in s\<lparr>loadingTimeout := None, isLoading := False,
            messages := messages s @ [errorMessage]\<rparr>)"

definition handleNewSession :: "jsstring \<Rightarrow> app_state \<Rightarrow> app_state" where
  "handleNewSession sessionId s =
     s\<lparr>hook := createNewSession sessionId (hook s), messages := [], currentInput := []\<rparr>"

text \<open>
  The events that reach the controller while it waits: the safety timer runs its
  callback only while it is armed, and the socket's \<open>query_response\<close> and
  \<open>query_error\<close> handlers exist while the hook holds a socket.
\<close>

datatype app_event = TimerExpired | QueryResponse envelope | QueryError "jsstring option"

definition app_step :: "nat \<Rightarrow> app_event \<Rightarrow> app_state \<Rightarrow> app_state" where
  "app_step now ev s =
     (case ev of
        TimerExpired \<Rightarrow>
          (case loadingTimeout s of None \<Rightarrow> s | Some d \<Rightarrow> on_loading_timeout now s)
      | QueryResponse data \<Rightarrow>
          (case socket (hook s) of None \<Rightarrow> s | Some k \<Rightarrow> handleQueryResponse now data s)
      | QueryError e \<Rightarrow>
          (case socket (hook s) of None \<Rightarrow> s | Some k \<Rightarrow> handleQueryError now e s))"

section \<open>Properties of the text utilities\<close>

lemma underscore_code: "cu CHR ''_'' = 0x5F"
  by (simp add: cu_def)

lemma space_code: "str '' '' = [0x20]"
  by (simp add: str_def cu_def)

lemma split_js_nonempty: "split_js sep s \<noteq> []"
  by (induction s) (auto split: list.splits)

lemma split_js_unfold:
  "split_js u s = takeWhile (\<lambda>x. x \<noteq> u) s
       # (case dropWhile (\<lambda>x. x \<noteq> u) s of [] \<Rightarrow> [] | d # r \<Rightarrow> split_js u r)"
  by (induction s) (auto split: list.splits)

lemma segments_split:
  "filter (\<lambda>w. w \<noteq> []) (split_js 0x5F s) = segments s"
proof (induction s rule: segments.induct)
  case 1
  show ?case by simp
next
  case (2 c cs)
  show ?case
  proof (cases "c = 0x5F")
    case True
    with 2 show ?thesis by simp
  next
    case False
    have "filter (\<lambda>w. w \<noteq> []) (split_js 0x5F (dropWhile (\<lambda>x. x \<noteq> 0x5F) cs))
            = segments (dropWhile (\<lambda>x. x \<noteq> 0x5F) cs)"
      using 2(2)[OF False] .
    moreover have "split_js 0x5F (c # cs) = takeWhile (\<lambda>x. x \<noteq> 0x5F) (c # cs)
       # (case dropWhile (\<lambda>x. x \<noteq> 0x5F) cs of [] \<Rightarrow> [] | d # r \<Rightarrow> split_js 0x5F r)"
      using False by (subst split_js_unfold) simp
    moreover have "filter (\<lambda>w. w \<noteq> [])
          (case dropWhile (\<lambda>x. x \<noteq> 0x5F) cs of [] \<Rightarrow> [] | d # r \<Rightarrow> split_js 0x5F r)
        = filter (\<lambda>w. w \<noteq> []) (split_js 0x5F (dropWhile (\<lambda>x. x \<noteq> 0x5F) cs))"
    proof (cases "dropWhile (\<lambda>x. x \<noteq> 0x5F) cs")
      case Nil
      then show ?thesis by (simp del: dropWhile_eq_Nil_conv)
    next
      case (Cons d r)
      then have "d = 0x5F" using hd_dropWhile[of "\<lambda>x. x \<noteq> 0x5F" cs] by auto
      with Cons show ?thesis by simp
    qed
    ultimately show ?thesis using False by simp
  qed
qed

lemma segments_drop_leading:
  "segments (dropWhile (\<lambda>c. c = 0x5F) s) = segments s"
  by (induction s) auto

lemma segments_snoc_underscore:
  "segments (s @ [0x5F]) = segments s"
proof (induction s rule: segments.induct)
  case 1
  show ?case by simp
next
  case (2 c cs)
  show ?case
  proof (cases "c = 0x5F")
    case True
    with 2 show ?thesis by simp
  next
    case False
    show ?thesis
    proof (cases "\<forall>x\<in>set cs. x \<noteq> 0x5F")
      case True
      then have "takeWhile (\<lambda>x. x \<noteq> 0x5F) cs = cs" "dropWhile (\<lambda>x. x \<noteq> 0x5F) cs = []"
        by simp_all
      then show ?thesis using False True
        by (simp del: dropWhile_eq_Nil_conv takeWhile_eq_all_conv)
    next
      case F2: False
      then obtain x where x: "x \<in> set cs" "\<not> x \<noteq> 0x5F" by auto
      have "takeWhile (\<lambda>x. x \<noteq> 0x5F) (cs @ [0x5F]) = takeWhile (\<lambda>x. x \<noteq> 0x5F) cs"
        using x by (rule takeWhile_append1)
      moreover have "dropWhile (\<lambda>x. x \<noteq> 0x5F) (cs @ [0x5F])
                       = dropWhile (\<lambda>x. x \<noteq> 0x5F) cs @ [0x5F]"
        using x by (rule dropWhile_append1)
      ultimately show ?thesis using False 2(2)[OF False] by simp
    qed
  qed
qed

lemma segments_append_underscores:
  "\<forall>c\<in>set t. c = 0x5F \<Longrightarrow> segments (s @ t) = segments s"
proof (induction t arbitrary: s)
  case Nil
  show ?case by simp
next
  case (Cons a t)
  from Cons.prems have a: "a = 0x5F" and t: "\<forall>c\<in>set t. c = 0x5F" by simp_all
  have "segments ((s @ [0x5F]) @ t) = segments (s @ [0x5F])"
    using Cons.IH[OF t] .
  with a show ?case by (simp add: segments_snoc_underscore)
qed

lemma segments_strip: "segments (strip_underscores s) = segments s"
proof -
  let ?P = "\<lambda>c. c = (0x5F :: code_unit)"
  let ?d = "dropWhile ?P s"
  have "rev (takeWhile ?P (rev ?d) @ dropWhile ?P (rev ?d)) = ?d"
    by (simp only: takeWhile_dropWhile_id rev_rev_ident)
  then have split: "rev (dropWhile ?P (rev ?d)) @ rev (takeWhile ?P (rev ?d)) = ?d"
    by (simp only: rev_append)
  have all: "\<forall>c\<in>set (rev (takeWhile ?P (rev ?d))). c = 0x5F"
    by (auto dest: set_takeWhileD)
  have "segments (rev (dropWhile ?P (rev ?d))) = segments ?d"
    using segments_append_underscores[OF all, of "rev (dropWhile ?P (rev ?d))"]
    by (simp only: split)
  then show ?thesis
    by (simp add: strip_underscores_def underscore_code segments_drop_leading)
qed

lemma segments_Cons:
  "c \<noteq> 0x5F \<Longrightarrow>
   segments (c # xs) =
     (if xs = [] \<or> hd xs = 0x5F then [c] # segments xs
      else (c # hd (segments xs)) # tl (segments xs))"
  by (cases xs) auto

lemma collapse_hd: "\<exists>r. collapse_underscores (d # cs) = d # r"
  by (induction cs arbitrary: d) auto

lemma segments_collapse: "segments (collapse_underscores s) = segments s"
proof (induction s rule: collapse_underscores.induct)
  case 1
  show ?case by simp
next
  case (2 c)
  show ?case by simp
next
  case (3 c d cs)
  show ?case
  proof (cases "c = 0x5F")
    case True
    with 3 show ?thesis by (auto simp: underscore_code)
  next
    case False
    obtain r where r: "collapse_underscores (d # cs) = d # r"
      using collapse_hd by blast
    have ih: "segments (d # r) = segments (d # cs)"
      using 3(2) False r by (simp add: underscore_code)
    have "segments (c # d # r) = segments (c # d # cs)"
      using False ih by (simp only: segments_Cons[OF False] list.sel list.distinct simp_thms)
    then show ?thesis using False r by (simp add: underscore_code)
  qed
qed

lemma segments_nonempty_runs:
  "w \<in> set (segments s) \<Longrightarrow> w \<noteq> [] \<and> 0x5F \<notin> set w"
proof (induction s arbitrary: w rule: segments.induct)
  case 1
  then show ?case by simp
next
  case (2 c cs)
  show ?case
  proof (cases "c = 0x5F")
    case True
    with 2 show ?thesis by simp
  next
    case False
    with 2(3) have "w = takeWhile (\<lambda>x. x \<noteq> 0x5F) (c # cs)
        \<or> w \<in> set (segments (dropWhile (\<lambda>x. x \<noteq> 0x5F) cs))"
      by simp
    then show ?thesis
    proof
      assume "w = takeWhile (\<lambda>x. x \<noteq> 0x5F) (c # cs)"
      then show ?thesis using False by (auto dest: set_takeWhileD)
    next
      assume "w \<in> set (segments (dropWhile (\<lambda>x. x \<noteq> 0x5F) cs))"
      then show ?thesis using 2(2)[OF False] by blast
    qed
  qed
qed

lemma last_dropWhile_nonempty:
  "dropWhile P xs \<noteq> [] \<Longrightarrow> last (dropWhile P xs) = last xs"
proof -
  assume ne: "dropWhile P xs \<noteq> []"
  have "last (takeWhile P xs @ dropWhile P xs) = last (dropWhile P xs)"
    using ne by (rule last_appendR)
  then show ?thesis by simp
qed

lemma strip_underscores_ends:
  assumes "strip_underscores t \<noteq> []"
  shows "hd (strip_underscores t) \<noteq> 0x5F \<and> last (strip_underscores t) \<noteq> 0x5F"
proof -
  let ?P = "\<lambda>c. c = (0x5F :: code_unit)"
  let ?d = "dropWhile ?P t"
  let ?r = "dropWhile ?P (rev ?d)"
  have s: "strip_underscores t = rev ?r"
    by (simp add: strip_underscores_def underscore_code)
  with assms have r: "?r \<noteq> []" by simp
  have d: "?d \<noteq> []"
  proof
    assume "?d = []"
    then have "?r = []" by (simp del: dropWhile_eq_Nil_conv)
    with r show False by simp
  qed
  have "last (rev ?r) = hd ?r" using r by (simp add: last_rev)
  moreover have "\<not> ?P (hd ?r)" using r by (rule hd_dropWhile)
  moreover have "hd (rev ?r) = last ?r" using r by (simp add: hd_rev)
  moreover have "last ?r = last (rev ?d)" using r by (rule last_dropWhile_nonempty)
  moreover have "last (rev ?d) = hd ?d" using d by (simp add: last_rev)
  moreover have "\<not> ?P (hd ?d)" using d by (rule hd_dropWhile)
  ultimately show ?thesis unfolding s by simp
qed

lemma collapse_no_run: "\<not> sublist [0x5F, 0x5F] (collapse_underscores t)"
proof (induction t rule: collapse_underscores.induct)
  case 1
  show ?case by simp
next
  case (2 c)
  show ?case by (simp add: sublist_Cons_right)
next
  case (3 c d cs)
  obtain r where r: "collapse_underscores (d # cs) = d # r"
    using collapse_hd by blast
  show ?case
  proof (cases "c = 0x5F \<and> d = 0x5F")
    case True
    with 3 show ?thesis by (simp add: underscore_code)
  next
    case False
    then have "collapse_underscores (c # d # cs) = c # d # r"
      using r by (auto simp: underscore_code)
    moreover have "\<not> sublist [0x5F, 0x5F] (d # r)"
      using 3(2) False r by (auto simp: underscore_code)
    ultimately show ?thesis using False by (auto simp: sublist_Cons_right)
  qed
qed

lemma snake_pieces:
  "filter (\<lambda>w. w \<noteq> []) (split_js 0x5F (collapse_underscores (strip_underscores text)))
     = segments text"
  using segments_split[of "collapse_underscores (strip_underscores text)"]
  by (simp only: segments_collapse segments_strip)

lemma snake_to_title_segments:
  assumes "0x5F \<in> set text"
  shows "snake_to_title rt text
     = join_js [0x20]
         (map (\<lambda>w. toUpperCase rt (take 1 w) @ toLowerCase rt (drop 1 w)) (segments text))"
proof -
  have ne: "text \<noteq> []" using assms by auto
  have pipeline: "snake_to_title rt text
      = join_js [0x20]
          (map (\<lambda>word. capitalizeWord rt (JString word :: unit jsval)) (segments text))"
    using assms ne
    by (simp add: snake_to_title_def truthy_def underscore_code space_code snake_pieces)
  have words: "map (\<lambda>word. capitalizeWord rt (JString word :: unit jsval)) (segments text)
      = map (\<lambda>w. toUpperCase rt (take 1 w) @ toLowerCase rt (drop 1 w)) (segments text)"
  proof (rule map_cong[OF refl])
    fix w
    assume "w \<in> set (segments text)"
    then have "w \<noteq> []" using segments_nonempty_runs by blast
    then show "capitalizeWord rt (JString w :: unit jsval)
        = toUpperCase rt (take 1 w) @ toLowerCase rt (drop 1 w)"
      by (simp add: truthy_def)
  qed
  show ?thesis by (simp only: pipeline words)
qed

lemma ascii_only_take_drop:
  "ascii_only w \<Longrightarrow> ascii_only (take n w) \<and> ascii_only (drop n w)"
  by (auto simp: ascii_only_def list_all_iff dest: in_set_takeD in_set_dropD)

lemma capitalize_ascii:
  assumes "ascii_case rt" and "ascii_only w"
  shows "toUpperCase rt (take 1 w) @ toLowerCase rt (drop 1 w)
     = map ascii_upper (take 1 w) @ map ascii_lower (drop 1 w)"
  using assms ascii_only_take_drop[OF assms(2), of 1] by (simp add: ascii_case_def)

lemma ascii_runtime_case: "ascii_case ascii_runtime"
  by (simp add: ascii_case_def ascii_runtime_def)

lemmas ascii_eval = str_def cu_def ascii_only_def ascii_upper_def ascii_lower_def

lemma snake_examples:
  assumes "ascii_case rt"
  shows "snake_to_title rt (str ''data_points_analyzed'') = str ''Data Points Analyzed''"
    and "snake_to_title rt (str ''__a__b__'') = str ''A B''"
    and "snake_to_title rt (str ''total_USD_amount'') = str ''Total Usd Amount''"
proof -
  note cap = capitalize_ascii[OF assms]
  have s1: "segments (str ''data_points_analyzed'') = [str ''data'', str ''points'', str ''analyzed'']"
    by (simp add: str_def cu_def)
  have s2: "segments (str ''__a__b__'') = [str ''a'', str ''b'']"
    by (simp add: str_def cu_def)
  have s3: "segments (str ''total_USD_amount'') = [str ''total'', str ''USD'', str ''amount'']"
    by (simp add: str_def cu_def)
  have w: "toUpperCase rt (take 1 (str ''data'')) @ toLowerCase rt (drop 1 (str ''data'')) = str ''Data''"
    "toUpperCase rt (take 1 (str ''points'')) @ toLowerCase rt (drop 1 (str ''points'')) = str ''Points''"
    "toUpperCase rt (take 1 (str ''analyzed'')) @ toLowerCase rt (drop 1 (str ''analyzed'')) = str ''Analyzed''"
    "toUpperCase rt (take 1 (str ''a'')) @ toLowerCase rt (drop 1 (str ''a'')) = str ''A''"
    "toUpperCase rt (take 1 (str ''b'')) @ toLowerCase rt (drop 1 (str ''b'')) = str ''B''"
    "toUpperCase rt (take 1 (str ''total'')) @ toLowerCase rt (drop 1 (str ''total'')) = str ''Total''"
    "toUpperCase rt (take 1 (str ''USD'')) @ toLowerCase rt (drop 1 (str ''USD'')) = str ''Usd''"
    "toUpperCase rt (take 1 (str ''amount'')) @ toLowerCase rt (drop 1 (str ''amount'')) = str ''Amount''"
    by (subst cap; simp add: ascii_eval)+
  have u: "0x5F \<in> set (str ''data_points_analyzed'')" "0x5F \<in> set (str ''__a__b__'')"
    "0x5F \<in> set (str ''total_USD_amount'')"
    by (simp_all add: str_def cu_def)
  show "snake_to_title rt (str ''data_points_analyzed'') = str ''Data Points Analyzed''"
    unfolding snake_to_title_segments[OF u(1)] s1
    by (simp only: list.map join_js.simps w) (simp add: str_def cu_def)
  show "snake_to_title rt (str ''__a__b__'') = str ''A B''"
    unfolding snake_to_title_segments[OF u(2)] s2
    by (simp only: list.map join_js.simps w) (simp add: str_def cu_def)
  show "snake_to_title rt (str ''total_USD_amount'') = str ''Total Usd Amount''"
    unfolding snake_to_title_segments[OF u(3)] s3
    by (simp only: list.map join_js.simps w) (simp add: str_def cu_def)
qed

text \<open>
  Claim C7. \<open>convertSnakeCaseToTitle\<close> returns a value for every input. A value that is
  not a string, and a string without an underscore, come back unchanged. For a string
  with an underscore the pieces that the source obtains (underscores stripped at both
  ends, runs collapsed, split, empty pieces dropped) are exactly the maximal
  underscore-free runs of the text, each of them non-empty; the result is these pieces,
  each with its first code unit in upper case and the rest in lower case, joined with
  single spaces. What is left after stripping neither starts nor ends with an
  underscore, and after collapsing no two underscores are adjacent. With the case mappings of Unicode on ASCII text the examples of the
  specification evaluate as stated, and an upper-case tail comes out in lower case.
\<close>

theorem snakeToTitle_behaviour:
  "convertSnakeCaseToTitle rt (JOther x :: 'a jsval) = JOther x
   \<and> (0x5F \<notin> set text \<longrightarrow>
        convertSnakeCaseToTitle rt (JString text :: 'a jsval) = JString text)
   \<and> (0x5F \<in> set text \<longrightarrow>
        convertSnakeCaseToTitle rt (JString text :: 'a jsval)
          = JString (join_js [0x20]
              (map (\<lambda>w. toUpperCase rt (take 1 w) @ toLowerCase rt (drop 1 w))
                 (segments text))))
   \<and> filter (\<lambda>w. w \<noteq> [])
         (split_js 0x5F (collapse_underscores (strip_underscores text)))
       = segments text
   \<and> (\<forall>w \<in> set (segments text). w \<noteq> [] \<and> 0x5F \<notin> set w)
   \<and> (strip_underscores text \<noteq> [] \<longrightarrow>
        hd (strip_underscores text) \<noteq> 0x5F \<and> last (strip_underscores text) \<noteq> 0x5F)
   \<and> \<not> sublist [0x5F, 0x5F] (collapse_underscores text)
   \<and> strip_underscores (str ''__a__b__'') = str ''a__b''
   \<and> collapse_underscores (str ''a__b___c'') = str ''a_b_c''
   \<and> (ascii_case rt \<longrightarrow>
        convertSnakeCaseToTitle rt (JString (str ''data_points_analyzed'') :: 'a jsval)
          = JString (str ''Data Points Analyzed'')
        \<and> convertSnakeCaseToTitle rt (JString (str ''__a__b__'') :: 'a jsval)
            = JString (str ''A B'')
        \<and> convertSnakeCaseToTitle rt (JString (str ''total_USD_amount'') :: 'a jsval)
            = JString (str ''Total Usd Amount''))
   \<and> convertSnakeCaseToTitle rt (JString [] :: 'a jsval) = JString []
   \<and> convertSnakeCaseToTitle rt (JString (str ''noUnderscore'') :: 'a jsval)
       = JString (str ''noUnderscore'')"
proof -
  have other: "convertSnakeCaseToTitle rt (JOther x :: 'a jsval) = JOther x"
    by simp
  have plain: "0x5F \<notin> set text \<longrightarrow>
      convertSnakeCaseToTitle rt (JString text :: 'a jsval) = JString text"
    by (simp add: snake_to_title_def underscore_code)
  have snake: "0x5F \<in> set text \<longrightarrow>
        convertSnakeCaseToTitle rt (JString text :: 'a jsval)
          = JString (join_js [0x20]
              (map (\<lambda>w. toUpperCase rt (take 1 w) @ toLowerCase rt (drop 1 w))
                 (segments text)))"
    using snake_to_title_segments by simp
  have runs: "\<forall>w \<in> set (segments text). w \<noteq> [] \<and> 0x5F \<notin> set w"
    using segments_nonempty_runs by blast
  have ex: "ascii_case rt \<longrightarrow>
        convertSnakeCaseToTitle rt (JString (str ''data_points_analyzed'') :: 'a jsval)
          = JString (str ''Data Points Analyzed'')
        \<and> convertSnakeCaseToTitle rt (JString (str ''__a__b__'') :: 'a jsval)
            = JString (str ''A B'')
        \<and> convertSnakeCaseToTitle rt (JString (str ''total_USD_amount'') :: 'a jsval)
            = JString (str ''Total Usd Amount'')"
    using snake_examples by simp
  have ends: "strip_underscores text \<noteq> [] \<longrightarrow>
        hd (strip_underscores text) \<noteq> 0x5F \<and> last (strip_underscores text) \<noteq> 0x5F"
    using strip_underscores_ends by blast
  have pins: "strip_underscores (str ''__a__b__'') = str ''a__b''"
    "collapse_underscores (str ''a__b___c'') = str ''a_b_c''"
    by (simp_all add: strip_underscores_def str_def cu_def)
  have e2: "convertSnakeCaseToTitle rt (JString [] :: 'a jsval) = JString []"
    by (simp add: snake_to_title_def truthy_def)
  have e3: "convertSnakeCaseToTitle rt (JString (str ''noUnderscore'') :: 'a jsval)
       = JString (str ''noUnderscore'')"
    by (simp add: snake_to_title_def truthy_def str_def cu_def)
  from other plain snake snake_pieces runs ends collapse_no_run pins ex e2 e3
  show ?thesis by blast
qed

theorem snakeToTitle_behaviour_witness:
  "ascii_case ascii_runtime
   \<and> 0x5F \<in> set (str ''total__count_'') \<and> 0x5F \<notin> set (str ''Amount'')
   \<and> segments (str ''total__count_'') = [str ''total'', str ''count'']
   \<and> convertSnakeCaseToTitle ascii_runtime (JString (str ''Amount'') :: unit jsval)
       = JString (str ''Amount'')
   \<and> convertSnakeCaseToTitle ascii_runtime (JString (str ''total__count_'') :: unit jsval)
       = JString (str ''Total Count'')
   \<and> convertSnakeCaseToTitle ascii_runtime (JString (str ''total_USD_amount'') :: unit jsval)
       = JString (str ''Total Usd Amount'')"
proof -
  have a: "0x5F \<in> set (str ''total__count_'')" and b: "0x5F \<notin> set (str ''Amount'')"
    by (simp_all add: str_def cu_def)
  have c: "segments (str ''total__count_'') = [str ''total'', str ''count'']"
    by (simp add: str_def cu_def)
  have d: "join_js [0x20]
      (map (\<lambda>w. toUpperCase ascii_runtime (take 1 w) @ toLowerCase ascii_runtime (drop 1 w))
         [str ''total'', str ''count'']) = str ''Total Count''"
    by (simp add: ascii_runtime_def ascii_eval)
  show ?thesis
    using a b c d ascii_runtime_case
      snakeToTitle_behaviour[of ascii_runtime "()" "str ''total__count_''"]
      snakeToTitle_behaviour[of ascii_runtime "()" "str ''Amount''"]
    by simp
qed

section \<open>Properties of the table renderer\<close>

lemma fold_append_acc: "fold (\<lambda>x h. h @ f x) xs h = h @ concat (map f xs)"
  by (induction xs arbitrary: h) simp_all

lemma escape_chars_escaped: "concat (map escape_char v) = html_escaped v"
  by (induction v) (simp_all add: str_def cu_def)

lemma escapeHtml_escaped: "escapeHtml (JString v :: 'a jsval) = html_escaped v"
  by (simp add: escape_chars_escaped)

lemma html_escaped_clean:
  "0x3C \<notin> set (html_escaped v) \<and> 0x3E \<notin> set (html_escaped v) \<and> 0xA0 \<notin> set (html_escaped v)"
  by (induction v) auto

lemma cell_at_eq: "cell_at cells i = (if i < length cells then cells ! i else [])"
  by (simp add: cell_at_def truthy_def)

lemma fit_row_length: "length (fit_row n cells) = n"
  by (simp add: fit_row_def)

lemma fit_row_nth:
  "i < n \<Longrightarrow> fit_row n cells ! i = (if i < length cells then cells ! i else [])"
  by (simp add: fit_row_def nth_append)

lemma map_cell_at: "map (cell_at cells) [0..<n] = fit_row n cells"
  by (rule nth_equalityI) (simp_all add: fit_row_length fit_row_nth cell_at_eq)

lemma td_cell_fun:
  \<open>td_cell = (\<lambda>v. str ''<td class="px-4 py-3 border-b border-gray-200 text-gray-700">''
                     @ html_escaped v @ str ''</td>'')\<close>
  by (rule ext) (simp add: td_cell_def escape_chars_escaped)

lemma th_cell_fun:
  \<open>th_cell = (\<lambda>h. str ''<th class="bg-gray-50 text-left font-semibold text-gray-900 px-4 py-3 border-b border-gray-200">''
                     @ html_escaped h @ str ''</th>'')\<close>
  by (rule ext) (simp add: th_cell_def escape_chars_escaped)

lemma tr_open_even:
  \<open>tr_open index = str ''<tr class="''
     @ (if even index then str ''bg-white'' else str ''bg-gray-50'')
     @ str '' hover:bg-gray-100">''\<close>
  by (simp add: tr_open_def even_iff_mod_2_eq_zero)

lemma cells_loop_eq:
  "cells_loop headers cells html
     = html @ concat (map td_cell (fit_row (length headers) cells))"
proof -
  have "cells_loop headers cells html
          = html @ concat (map (\<lambda>i. td_cell (cell_at cells i)) [0..<length headers])"
    unfolding cells_loop_def by (rule fold_append_acc)
  also have "map (\<lambda>i. td_cell (cell_at cells i)) [0..<length headers]
          = map td_cell (map (cell_at cells) [0..<length headers])"
    by simp
  finally show ?thesis by (simp only: map_cell_at)
qed

lemma trim_Nil_iff: "trim s = [] \<longleftrightarrow> (\<forall>c\<in>set s. is_ws c)"
proof
  assume t: "trim s = []"
  have "dropWhile is_ws s = []"
  proof (rule ccontr)
    assume ne: "dropWhile is_ws s \<noteq> []"
    then have "\<not> is_ws (hd (dropWhile is_ws s))" by (rule hd_dropWhile)
    moreover have "\<forall>x\<in>set (dropWhile is_ws s). is_ws x"
      using t by (simp add: trim_def)
    ultimately show False using ne by (cases "dropWhile is_ws s") auto
  qed
  then show "\<forall>c\<in>set s. is_ws c" by simp
next
  assume "\<forall>c\<in>set s. is_ws c"
  then have "dropWhile is_ws s = []" by simp
  then show "trim s = []" by (simp add: trim_def del: dropWhile_eq_Nil_conv)
qed

lemma split_js_no_sep: "sep \<notin> set s \<Longrightarrow> split_js sep s = [s]"
  by (induction s) auto

lemma pipe_cells_blank: "trim line = [] \<Longrightarrow> pipe_cells line = []"
proof -
  assume t: "trim line = []"
  then have ws: "\<forall>c\<in>set line. is_ws c" by (simp add: trim_Nil_iff)
  have "\<not> is_ws (cu CHR ''|'')" by (simp add: is_ws_def cu_def)
  with ws have "cu CHR ''|'' \<notin> set line" by auto
  then have "split_js (cu CHR ''|'') line = [line]" by (rule split_js_no_sep)
  with t show ?thesis by (simp add: pipe_cells_def truthy_def)
qed

lemma data_line_step_eq:
  "data_line_step headers li html = html @ row_or_nothing (length headers) li"
proof (cases li)
  case (Pair line index)
  show ?thesis
  proof (cases "trim line = []")
    case True
    then show ?thesis
      by (simp add: Pair data_line_step_def row_or_nothing_def truthy_def pipe_cells_blank)
  next
    case False
    then show ?thesis
      by (simp add: Pair data_line_step_def row_or_nothing_def truthy_def cells_loop_eq
          row_html_def td_cell_fun tr_open_even Let_def)
  qed
qed

lemma fold_data_lines:
  "fold (data_line_step headers) lis html
     = html @ concat (map (row_or_nothing (length headers)) lis)"
  by (induction lis arbitrary: html) (simp_all add: data_line_step_eq)

lemma rows_concat:
  "concat (map (row_or_nothing n) lis)
     = concat (map (row_html n)
         (filter (\<lambda>(cells, index). cells \<noteq> [])
            (map (\<lambda>(line, index). (pipe_cells line, index)) lis)))"
  by (induction lis) (auto simp: row_or_nothing_def)

lemma markdown_table_eq:
  assumes "2 \<le> length (split_js 0x0A (trim markdown))"
    and "table_headers rt (split_js 0x0A (trim markdown)) \<noteq> []"
  shows "markdown_table rt markdown
     = table_html (table_headers rt (split_js 0x0A (trim markdown)))
         (emitted_rows (drop 2 (split_js 0x0A (trim markdown))))"
  using assms
  by (simp add: markdown_table_def Let_def fold_append_acc fold_data_lines rows_concat
      emitted_rows_def table_html_def th_cell_fun str_def)

lemmas table_eval =
  table_try_def markdown_table_def trim_def is_ws_def table_headers_def snake_to_title_def
  truthy_def data_line_step_def pipe_cells_def cells_loop_def cell_at_def Let_def
  th_cell_def td_cell_def tr_open_def str_def cu_def

lemma table_example_three_cells:
  assumes "table_exception rt (str ''a|b\<newline>-|-\<newline>1|2|3'') = None"
  shows \<open>convertMarkdownToTable rt (JString (str ''a|b\<newline>-|-\<newline>1|2|3'') :: 'a jsval)
       = Inr (str ''<div class="overflow-x-auto"><table class="response-table"><thead><tr>''
           @ str ''<th class="bg-gray-50 text-left font-semibold text-gray-900 px-4 py-3 border-b border-gray-200">a</th>''
           @ str ''<th class="bg-gray-50 text-left font-semibold text-gray-900 px-4 py-3 border-b border-gray-200">b</th>''
           @ str ''</tr></thead><tbody>''
           @ str ''<tr class="bg-white hover:bg-gray-100">''
           @ str ''<td class="px-4 py-3 border-b border-gray-200 text-gray-700">1</td>''
           @ str ''<td class="px-4 py-3 border-b border-gray-200 text-gray-700">2</td>''
           @ str ''</tr>''
           @ str ''</tbody></table></div>'')\<close>
  using assms by (simp add: table_eval upt_conv_Cons)

lemma table_example_one_cell:
  assumes "table_exception rt (str ''a|b|c\<newline>-|-|-\<newline>1'') = None"
  shows \<open>convertMarkdownToTable rt (JString (str ''a|b|c\<newline>-|-|-\<newline>1'') :: 'a jsval)
       = Inr (str ''<div class="overflow-x-auto"><table class="response-table"><thead><tr>''
           @ str ''<th class="bg-gray-50 text-left font-semibold text-gray-900 px-4 py-3 border-b border-gray-200">a</th>''
           @ str ''<th class="bg-gray-50 text-left font-semibold text-gray-900 px-4 py-3 border-b border-gray-200">b</th>''
           @ str ''<th class="bg-gray-50 text-left font-semibold text-gray-900 px-4 py-3 border-b border-gray-200">c</th>''
           @ str ''</tr></thead><tbody>''
           @ str ''<tr class="bg-white hover:bg-gray-100">''
           @ str ''<td class="px-4 py-3 border-b border-gray-200 text-gray-700">1</td>''
           @ str ''<td class="px-4 py-3 border-b border-gray-200 text-gray-700"></td>''
           @ str ''<td class="px-4 py-3 border-b border-gray-200 text-gray-700"></td>''
           @ str ''</tr>''
           @ str ''</tbody></table></div>'')\<close>
  using assms by (simp add: table_eval upt_conv_Cons)

lemma table_example_escaped:
  assumes "table_exception rt (str ''k|v\<newline>-|-\<newline>1<2|a&b\<newline>c'') = None"
  shows \<open>convertMarkdownToTable rt
           (JString (str ''k|v\<newline>-|-\<newline>1<2|a&b\<newline>c'') :: 'a jsval)
       = Inr (str ''<div class="overflow-x-auto"><table class="response-table"><thead><tr>''
           @ str ''<th class="bg-gray-50 text-left font-semibold text-gray-900 px-4 py-3 border-b border-gray-200">k</th>''
           @ str ''<th class="bg-gray-50 text-left font-semibold text-gray-900 px-4 py-3 border-b border-gray-200">v</th>''
           @ str ''</tr></thead><tbody>''
           @ str ''<tr class="bg-white hover:bg-gray-100">''
           @ str ''<td class="px-4 py-3 border-b border-gray-200 text-gray-700">1&lt;2</td>''
           @ str ''<td class="px-4 py-3 border-b border-gray-200 text-gray-700">a&amp;b</td>''
           @ str ''</tr>''
           @ str ''<tr class="bg-gray-50 hover:bg-gray-100">''
           @ str ''<td class="px-4 py-3 border-b border-gray-200 text-gray-700">c</td>''
           @ str ''<td class="px-4 py-3 border-b border-gray-200 text-gray-700"></td>''
           @ str ''</tr>''
           @ str ''</tbody></table></div>'')\<close>
  using assms by (simp add: table_eval upt_conv_Cons)

text \<open>
  Claim C3. When the markdown reaches the table path (it is not empty, the \<open>try\<close> block
  runs to its end, the text has at least two lines after trimming, and its first line
  gives at least one header), the result is the table whose head holds the escaped
  headers and whose body holds one row for each data line that has a cell. Every such
  row has exactly as many cells as there are headers: cell \<open>i\<close> is the \<open>i\<close>-th cell of the
  line when the line has one, and empty otherwise, so further cells of the line are
  dropped. Headers and cells are inserted escaped: ampersand, no-break space and angle
  brackets as entities, everything else as it is; escaped text holds no angle bracket.
  A row of three cells under two headers renders two cells; a row of one cell under
  three headers renders three cells, two of them empty; a cell \<open>1<2\<close> is written
  \<open>1&lt;2\<close>.
\<close>

theorem table_rows_match_headers:
  \<open>(truthy markdown
      \<and> table_exception rt markdown = None
      \<and> 2 \<le> length (split_js 0x0A (trim markdown))
      \<and> table_headers rt (split_js 0x0A (trim markdown)) \<noteq> []
    \<longrightarrow>
      (let lines = split_js 0x0A (trim markdown);
           headers = table_headers rt lines;
           rows = emitted_rows (drop 2 lines)
       in convertMarkdownToTable rt (JString markdown :: 'a jsval)
            = Inr (table_html headers rows)
          \<and> (\<forall>row \<in> set rows.
                fst row \<noteq> []
                \<and> length (fit_row (length headers) (fst row)) = length headers
                \<and> (\<forall>i < length headers.
                      fit_row (length headers) (fst row) ! i
                        = (if i < length (fst row) then fst row ! i else [])))))
   \<and> (\<forall>v. 0x3C \<notin> set (html_escaped v) \<and> 0x3E \<notin> set (html_escaped v)
           \<and> 0xA0 \<notin> set (html_escaped v))
   \<and> html_escaped (str ''a<b>&'' @ [0xA0] @ str ''c'') = str ''a&lt;b&gt;&amp;&nbsp;c''
   \<and> (table_exception rt (str ''a|b\<newline>-|-\<newline>1|2|3'') = None \<longrightarrow>
        convertMarkdownToTable rt (JString (str ''a|b\<newline>-|-\<newline>1|2|3'') :: 'a jsval)
          = Inr (str ''<div class="overflow-x-auto"><table class="response-table"><thead><tr>''
           @ str ''<th class="bg-gray-50 text-left font-semibold text-gray-900 px-4 py-3 border-b border-gray-200">a</th>''
           @ str ''<th class="bg-gray-50 text-left font-semibold text-gray-900 px-4 py-3 border-b border-gray-200">b</th>''
           @ str ''</tr></thead><tbody>''
           @ str ''<tr class="bg-white hover:bg-gray-100">''
           @ str ''<td class="px-4 py-3 border-b border-gray-200 text-gray-700">1</td>''
           @ str ''<td class="px-4 py-3 border-b border-gray-200 text-gray-700">2</td>''
           @ str ''</tr>''
           @ str ''</tbody></table></div>''))
   \<and> (table_exception rt (str ''a|b|c\<newline>-|-|-\<newline>1'') = None \<longrightarrow>
        convertMarkdownToTable rt (JString (str ''a|b|c\<newline>-|-|-\<newline>1'') :: 'a jsval)
          = Inr (str ''<div class="overflow-x-auto"><table class="response-table"><thead><tr>''
           @ str ''<th class="bg-gray-50 text-left font-semibold text-gray-900 px-4 py-3 border-b border-gray-200">a</th>''
           @ str ''<th class="bg-gray-50 text-left font-semibold text-gray-900 px-4 py-3 border-b border-gray-200">b</th>''
           @ str ''<th class="bg-gray-50 text-left font-semibold text-gray-900 px-4 py-3 border-b border-gray-200">c</th>''
           @ str ''</tr></thead><tbody>''
           @ str ''<tr class="bg-white hover:bg-gray-100">''
           @ str ''<td class="px-4 py-3 border-b border-gray-200 text-gray-700">1</td>''
           @ str ''<td class="px-4 py-3 border-b border-gray-200 text-gray-700"></td>''
           @ str ''<td class="px-4 py-3 border-b border-gray-200 text-gray-700"></td>''
           @ str ''</tr>''
           @ str ''</tbody></table></div>''))
   \<and> (table_exception rt (str ''k|v\<newline>-|-\<newline>1<2|a&b\<newline>c'') = None \<longrightarrow>
        convertMarkdownToTable rt
            (JString (str ''k|v\<newline>-|-\<newline>1<2|a&b\<newline>c'') :: 'a jsval)
          = Inr (str ''<div class="overflow-x-auto"><table class="response-table"><thead><tr>''
           @ str ''<th class="bg-gray-50 text-left font-semibold text-gray-900 px-4 py-3 border-b border-gray-200">k</th>''
           @ str ''<th class="bg-gray-50 text-left font-semibold text-gray-900 px-4 py-3 border-b border-gray-200">v</th>''
           @ str ''</tr></thead><tbody>''
           @ str ''<tr class="bg-white hover:bg-gray-100">''
           @ str ''<td class="px-4 py-3 border-b border-gray-200 text-gray-700">1&lt;2</td>''
           @ str ''<td class="px-4 py-3 border-b border-gray-200 text-gray-700">a&amp;b</td>''
           @ str ''</tr>''
           @ str ''<tr class="bg-gray-50 hover:bg-gray-100">''
           @ str ''<td class="px-4 py-3 border-b border-gray-200 text-gray-700">c</td>''
           @ str ''<td class="px-4 py-3 border-b border-gray-200 text-gray-700"></td>''
           @ str ''</tr>''
           @ str ''</tbody></table></div>''))\<close>
proof -
  have path: "truthy markdown
      \<and> table_exception rt markdown = None
      \<and> 2 \<le> length (split_js 0x0A (trim markdown))
      \<and> table_headers rt (split_js 0x0A (trim markdown)) \<noteq> []
    \<longrightarrow>
      (let lines = split_js 0x0A (trim markdown);
           headers = table_headers rt lines;
           rows = emitted_rows (drop 2 lines)
       in convertMarkdownToTable rt (JString markdown :: 'a jsval)
            = Inr (table_html headers rows)
          \<and> (\<forall>row \<in> set rows.
                fst row \<noteq> []
                \<and> length (fit_row (length headers) (fst row)) = length headers
                \<and> (\<forall>i < length headers.
                      fit_row (length headers) (fst row) ! i
                        = (if i < length (fst row) then fst row ! i else []))))"
  proof (intro impI, elim conjE)
    assume t: "truthy markdown"
      and x: "table_exception rt markdown = None"
      and l: "2 \<le> length (split_js 0x0A (trim markdown))"
      and h: "table_headers rt (split_js 0x0A (trim markdown)) \<noteq> []"
    have html: "convertMarkdownToTable rt (JString markdown :: 'a jsval)
        = Inr (table_html (table_headers rt (split_js 0x0A (trim markdown)))
            (emitted_rows (drop 2 (split_js 0x0A (trim markdown)))))"
      using t x markdown_table_eq[OF l h] by (simp add: table_try_def)
    have rows: "\<forall>row \<in> set (emitted_rows (drop 2 (split_js 0x0A (trim markdown)))).
        fst row \<noteq> []"
      by (auto simp: emitted_rows_def)
    show "let lines = split_js 0x0A (trim markdown);
           headers = table_headers rt lines;
           rows = emitted_rows (drop 2 lines)
       in convertMarkdownToTable rt (JString markdown :: 'a jsval)
            = Inr (table_html headers rows)
          \<and> (\<forall>row \<in> set rows.
                fst row \<noteq> []
                \<and> length (fit_row (length headers) (fst row)) = length headers
                \<and> (\<forall>i < length headers.
                      fit_row (length headers) (fst row) ! i
                        = (if i < length (fst row) then fst row ! i else [])))"
      unfolding Let_def using html rows by (simp add: fit_row_length fit_row_nth)
  qed
  have esc: "html_escaped (str ''a<b>&'' @ [0xA0] @ str ''c'') = str ''a&lt;b&gt;&amp;&nbsp;c''"
    by (simp add: str_def cu_def)
  from path html_escaped_clean esc
    table_example_three_cells[of rt] table_example_one_cell[of rt] table_example_escaped[of rt]
  show ?thesis by blast
qed

theorem table_rows_match_headers_witness:
  "truthy (str ''a|b\<newline>-|-\<newline>1|2|3'')
   \<and> table_exception ascii_runtime (str ''a|b\<newline>-|-\<newline>1|2|3'') = None
   \<and> table_headers ascii_runtime (split_js 0x0A (trim (str ''a|b\<newline>-|-\<newline>1|2|3'')))
       = [str ''a'', str ''b'']
   \<and> emitted_rows (drop 2 (split_js 0x0A (trim (str ''a|b\<newline>-|-\<newline>1|2|3''))))
       = [([str ''1'', str ''2'', str ''3''], 0)]
   \<and> convertMarkdownToTable ascii_runtime (JString (str ''a|b\<newline>-|-\<newline>1|2|3'') :: unit jsval)
       = Inr (table_html [str ''a'', str ''b''] [([str ''1'', str ''2'', str ''3''], 0)])
   \<and> fit_row 2 [str ''1'', str ''2'', str ''3''] = [str ''1'', str ''2'']"
proof -
  have t: "truthy (str ''a|b\<newline>-|-\<newline>1|2|3'')"
    by (simp add: truthy_def str_def)
  have x: "table_exception ascii_runtime (str ''a|b\<newline>-|-\<newline>1|2|3'') = None"
    by (simp add: ascii_runtime_def)
  have l: "split_js 0x0A (trim (str ''a|b\<newline>-|-\<newline>1|2|3''))
      = [str ''a|b'', str ''-|-'', str ''1|2|3'']"
    by (simp add: trim_def is_ws_def str_def cu_def)
  have h: "table_headers ascii_runtime [str ''a|b'', str ''-|-'', str ''1|2|3'']
      = [str ''a'', str ''b'']"
    by (simp add: table_headers_def trim_def is_ws_def truthy_def snake_to_title_def
        str_def cu_def)
  have r: "emitted_rows (drop 2 [str ''a|b'', str ''-|-'', str ''1|2|3''])
      = [([str ''1'', str ''2'', str ''3''], 0)]"
    by (simp add: emitted_rows_def pipe_cells_def trim_def is_ws_def truthy_def str_def cu_def)
  have f: "fit_row 2 [str ''1'', str ''2'', str ''3''] = [str ''1'', str ''2'']"
    by (simp add: fit_row_def)
  show ?thesis
    using t x l h r f
      table_rows_match_headers[of "str ''a|b\<newline>-|-\<newline>1|2|3''" ascii_runtime,
        where ?'a = unit]
    by (simp add: Let_def)
qed

text \<open>
  Claim C4. \<open>convertMarkdownToTable\<close> never throws: for every input it returns a
  string. A non-empty string with fewer than two lines after trimming, a non-empty
  string whose first line gives no header, and a non-empty string on which the \<open>try\<close>
  block raises an exception, come back as the raw-text fallback: the input, escaped,
  inside the \<open>pre\<close> block. The empty string and a value that is not a string are
  answered by the first guard of the function, with the "No table data available"
  paragraph; the empty string has fewer than two lines, and it does not get the
  raw-text fallback.
\<close>

theorem table_fallback_nonempty:
  \<open>(\<exists>html. convertMarkdownToTable rt v = Inr html)
   \<and> (truthy markdown \<and> length (split_js 0x0A (trim markdown)) < 2 \<longrightarrow>
      convertMarkdownToTable rt (JString markdown :: 'a jsval)
        = Inr (str ''<pre class="bg-gray-100 p-3 rounded text-sm overflow-x-auto">''
                 @ html_escaped markdown @ str ''</pre>''))
   \<and> (truthy markdown \<and> table_headers rt (split_js 0x0A (trim markdown)) = [] \<longrightarrow>
      convertMarkdownToTable rt (JString markdown :: 'a jsval)
        = Inr (str ''<pre class="bg-gray-100 p-3 rounded text-sm overflow-x-auto">''
                 @ html_escaped markdown @ str ''</pre>''))
   \<and> (truthy markdown \<and> table_exception rt markdown = Some e \<longrightarrow>
      convertMarkdownToTable rt (JString markdown :: 'a jsval)
        = Inr (str ''<pre class="bg-gray-100 p-3 rounded text-sm overflow-x-auto">''
                 @ html_escaped markdown @ str ''</pre>''))
   \<and> convertMarkdownToTable rt (JString [] :: 'a jsval)
       = Inr (str ''<p class="text-gray-500 text-sm">No table data available</p>'')
   \<and> convertMarkdownToTable rt (JOther x :: 'a jsval)
       = Inr (str ''<p class="text-gray-500 text-sm">No table data available</p>'')
   \<and> convertMarkdownToTable rt (JString (str ''a'' @ [0x0A, 0xA0]) :: 'a jsval)
       = Inr (str ''<pre class="bg-gray-100 p-3 rounded text-sm overflow-x-auto">''
                @ str ''a'' @ [0x0A] @ str ''&nbsp;</pre>'')\<close>
proof -
  have total: "\<exists>html. convertMarkdownToTable rt v = Inr html"
    by (cases v) (auto split: sum.splits)
  have few: "truthy markdown \<and> length (split_js 0x0A (trim markdown)) < 2 \<longrightarrow>
      convertMarkdownToTable rt (JString markdown :: 'a jsval) = Inr (pre_fallback markdown)"
    by (simp add: table_try_def markdown_table_def Let_def split: option.splits)
  have nohead: "truthy markdown \<and> table_headers rt (split_js 0x0A (trim markdown)) = [] \<longrightarrow>
      convertMarkdownToTable rt (JString markdown :: 'a jsval) = Inr (pre_fallback markdown)"
    by (simp add: table_try_def markdown_table_def Let_def split: option.splits)
  have raised: "truthy markdown \<and> table_exception rt markdown = Some e \<longrightarrow>
      convertMarkdownToTable rt (JString markdown :: 'a jsval) = Inr (pre_fallback markdown)"
    by (simp add: table_try_def)
  have guard: "convertMarkdownToTable rt (JString [] :: 'a jsval) = Inr no_table_data"
    "convertMarkdownToTable rt (JOther x :: 'a jsval) = Inr no_table_data"
    by (simp_all add: truthy_def)
  have nbsp: \<open>convertMarkdownToTable rt (JString (str ''a'' @ [0x0A, 0xA0]) :: 'a jsval)
       = Inr (str ''<pre class="bg-gray-100 p-3 rounded text-sm overflow-x-auto">''
                @ str ''a'' @ [0x0A] @ str ''&nbsp;</pre>'')\<close>
    by (simp add: table_try_def markdown_table_def pre_fallback_def trim_def is_ws_def
        truthy_def str_def cu_def Let_def split: option.splits)
  have pre: \<open>pre_fallback markdown
      = str ''<pre class="bg-gray-100 p-3 rounded text-sm overflow-x-auto">''
          @ html_escaped markdown @ str ''</pre>''\<close>
    by (simp add: pre_fallback_def escape_chars_escaped)
  from total few nohead raised guard nbsp show ?thesis
    unfolding pre no_table_data_def by blast
qed

theorem table_fallback_nonempty_witness:
  \<open>truthy (str ''total < 5'') \<and> length (split_js 0x0A (trim (str ''total < 5''))) < 2
   \<and> convertMarkdownToTable ascii_runtime (JString (str ''total < 5'') :: unit jsval)
       = Inr (str ''<pre class="bg-gray-100 p-3 rounded text-sm overflow-x-auto">total &lt; 5</pre>'')
   \<and> truthy (str ''|\<newline>x'')
   \<and> table_headers ascii_runtime (split_js 0x0A (trim (str ''|\<newline>x''))) = []
   \<and> convertMarkdownToTable ascii_runtime (JString (str ''|\<newline>x'') :: unit jsval)
       = Inr (str ''<pre class="bg-gray-100 p-3 rounded text-sm overflow-x-auto">|\<newline>x</pre>'')
   \<and> table_exception
        (ascii_runtime\<lparr>table_exception := (\<lambda>text. Some (JsError (str ''Invalid string length'')))\<rparr>)
        (str ''a|b\<newline>-|-\<newline>1|2'') = Some (JsError (str ''Invalid string length''))
   \<and> convertMarkdownToTable
        (ascii_runtime\<lparr>table_exception := (\<lambda>text. Some (JsError (str ''Invalid string length'')))\<rparr>)
        (JString (str ''a|b\<newline>-|-\<newline>1|2'') :: unit jsval)
       = Inr (str ''<pre class="bg-gray-100 p-3 rounded text-sm overflow-x-auto">a|b\<newline>-|-\<newline>1|2</pre>'')\<close>
proof -
  let ?raising =
    "ascii_runtime\<lparr>table_exception := (\<lambda>text. Some (JsError (str ''Invalid string length'')))\<rparr>"
  have a: "truthy (str ''total < 5'') \<and> length (split_js 0x0A (trim (str ''total < 5''))) < 2"
    by (simp add: truthy_def trim_def is_ws_def str_def cu_def)
  have b: "truthy (str ''|\<newline>x'')
      \<and> table_headers ascii_runtime (split_js 0x0A (trim (str ''|\<newline>x''))) = []"
    by (simp add: truthy_def trim_def is_ws_def table_headers_def str_def cu_def)
  have c: "truthy (str ''a|b\<newline>-|-\<newline>1|2'')
      \<and> table_exception ?raising (str ''a|b\<newline>-|-\<newline>1|2'')
          = Some (JsError (str ''Invalid string length''))"
    by (simp add: truthy_def str_def)
  have r1: \<open>convertMarkdownToTable ascii_runtime (JString (str ''total < 5'') :: unit jsval)
       = Inr (str ''<pre class="bg-gray-100 p-3 rounded text-sm overflow-x-auto">total &lt; 5</pre>'')\<close>
    using a table_fallback_nonempty[where rt = ascii_runtime and markdown = "str ''total < 5''"
        and v = "JOther ()" and x = "()" and e = "JsError []"]
    by (simp add: str_def cu_def del: convertMarkdownToTable.simps)
  have r2: \<open>convertMarkdownToTable ascii_runtime (JString (str ''|\<newline>x'') :: unit jsval)
       = Inr (str ''<pre class="bg-gray-100 p-3 rounded text-sm overflow-x-auto">|\<newline>x</pre>'')\<close>
    using b table_fallback_nonempty[where rt = ascii_runtime and markdown = "str ''|\<newline>x''"
        and v = "JOther ()" and x = "()" and e = "JsError []"]
    by (simp add: str_def cu_def del: convertMarkdownToTable.simps)
  have r3: \<open>convertMarkdownToTable ?raising (JString (str ''a|b\<newline>-|-\<newline>1|2'') :: unit jsval)
       = Inr (str ''<pre class="bg-gray-100 p-3 rounded text-sm overflow-x-auto">a|b\<newline>-|-\<newline>1|2</pre>'')\<close>
    using c table_fallback_nonempty[where rt = ?raising
        and markdown = "str ''a|b\<newline>-|-\<newline>1|2''"
        and v = "JOther ()" and x = "()" and e = "JsError (str ''Invalid string length'')"]
    by (simp add: str_def cu_def del: convertMarkdownToTable.simps)
  from a b c r1 r2 r3 show ?thesis by blast
qed

theorem table_fallback_empty_counterexample:
  \<open>length (split_js 0x0A (trim [])) < 2
   \<and> convertMarkdownToTable ascii_runtime (JString [] :: unit jsval)
       \<noteq> Inr (str ''<pre class="bg-gray-100 p-3 rounded text-sm overflow-x-auto">''
                 @ html_escaped [] @ str ''</pre>'')
   \<and> convertMarkdownToTable ascii_runtime (JString [] :: unit jsval)
       = Inr (str ''<p class="text-gray-500 text-sm">No table data available</p>'')\<close>
  by (simp add: trim_def no_table_data_def truthy_def str_def cu_def)

section \<open>Properties of the sanitizer\<close>

lemma remove_tag_elements:
  "e \<in> set (concat (map elements_of (remove_tag t n))) \<Longrightarrow>
     tag e \<noteq> t \<and> tag e \<in> tag ` set (elements_of n)"
proof (induction t n arbitrary: e rule: remove_tag.induct)
  case (1 t s)
  then show ?case by simp
next
  case (2 t n a cs tc)
  show ?case
  proof (cases "n = t")
    case True
    with 2(2) show ?thesis by simp
  next
    case False
    with 2(2) have "e = Element n a (concat (map (remove_tag t) cs)) tc
        \<or> (\<exists>c\<in>set cs. e \<in> set (concat (map elements_of (remove_tag t c))))"
      by auto
    then show ?thesis
    proof
      assume "e = Element n a (concat (map (remove_tag t) cs)) tc"
      with False show ?thesis by simp
    next
      assume "\<exists>c\<in>set cs. e \<in> set (concat (map elements_of (remove_tag t c)))"
      then obtain c where c: "c \<in> set cs" "e \<in> set (concat (map elements_of (remove_tag t c)))"
        by blast
      from 2(1)[OF False c] c(1) show ?thesis by auto
    qed
  qed
qed

lemma remove_tag_forest:
  "e \<in> set (all_elements (concat (map (remove_tag t) forest))) \<Longrightarrow>
     tag e \<noteq> t \<and> tag e \<in> tag ` set (all_elements forest)"
  using remove_tag_elements by (fastforce simp: all_elements_def)

lemma fold_remove_tags:
  "e \<in> set (all_elements (fold (\<lambda>t forest. concat (map (remove_tag t) forest)) ts forest)) \<Longrightarrow>
     tag e \<notin> set ts \<and> tag e \<in> tag ` set (all_elements forest)"
proof (induction ts arbitrary: forest)
  case Nil
  then show ?case by simp
next
  case (Cons t ts)
  from Cons.IH[of "concat (map (remove_tag t) forest)"] Cons.prems
  have ts: "tag e \<notin> set ts"
    and "tag e \<in> tag ` set (all_elements (concat (map (remove_tag t) forest)))"
    by simp_all
  then obtain e1 where e1: "e1 \<in> set (all_elements (concat (map (remove_tag t) forest)))"
    "tag e = tag e1"
    by blast
  from remove_tag_forest[OF e1(1)] e1(2) ts show ?case by simp
qed

lemma remove_dangerous_tags:
  "e \<in> set (all_elements (remove_dangerous forest)) \<Longrightarrow> tag e \<notin> set dangerousElements"
  unfolding remove_dangerous_def using fold_remove_tags by blast

lemma clean_node_elements:
  "e \<in> set (elements_of (clean_node n)) \<Longrightarrow>
     \<exists>e0 \<in> set (elements_of n). tag e = tag e0 \<and> attrs e = clean_attrs (attrs e0)"
proof (induction n arbitrary: e rule: clean_node.induct)
  case (1 s)
  then show ?case by simp
next
  case (2 n a cs tc)
  from 2(2) have "e = Element n (clean_attrs a) (map clean_node cs) tc
      \<or> (\<exists>c\<in>set cs. e \<in> set (elements_of (clean_node c)))"
    by auto
  then show ?case
  proof
    assume "e = Element n (clean_attrs a) (map clean_node cs) tc"
    then show ?thesis by simp
  next
    assume "\<exists>c\<in>set cs. e \<in> set (elements_of (clean_node c))"
    then obtain c where c: "c \<in> set cs" "e \<in> set (elements_of (clean_node c))" by blast
    from 2(1)[OF c] c(1) show ?thesis by auto
  qed
qed

lemma clean_forest_elements:
  "e \<in> set (all_elements (map clean_node forest)) \<Longrightarrow>
     \<exists>e0 \<in> set (all_elements forest). tag e = tag e0 \<and> attrs e = clean_attrs (attrs e0)"
  using clean_node_elements by (fastforce simp: all_elements_def)

lemma fold_remove_attrs:
  "fold (\<lambda>attr a. if a attr \<noteq> None then removeAttribute attr a else a) xs a x
     = (if x \<in> set xs then None else a x)"
  by (induction xs arbitrary: a) (auto simp: removeAttribute_def)

lemma remove_javascript_other:
  "x \<noteq> attr \<Longrightarrow> remove_javascript attr a x = a x"
  by (simp add: remove_javascript_def removeAttribute_def split: option.splits)

lemma remove_javascript_self:
  "remove_javascript attr a attr = Some v \<Longrightarrow> \<not> prefix (str ''javascript:'') v"
  by (auto simp: remove_javascript_def removeAttribute_def split: option.splits if_splits)

lemma remove_javascript_None:
  "a x = None \<Longrightarrow> remove_javascript attr a x = None"
  by (simp add: remove_javascript_def removeAttribute_def split: option.splits)

lemma remove_javascript_keeps:
  "remove_javascript attr a x = Some v \<Longrightarrow> a x = Some v"
  by (auto simp: remove_javascript_def removeAttribute_def split: option.splits if_splits)

lemma clean_attrs_handlers:
  "x \<in> set dangerousAttributes \<Longrightarrow> clean_attrs a x = None"
proof -
  assume x: "x \<in> set dangerousAttributes"
  have "fold (\<lambda>attr a. if a attr \<noteq> None then removeAttribute attr a else a)
          dangerousAttributes a x = None"
    using x by (simp only: fold_remove_attrs if_True)
  then show ?thesis
    unfolding clean_attrs_def Let_def by (intro remove_javascript_None)
qed

lemma href_src_distinct: "str ''href'' \<noteq> str ''src''"
  by (simp add: str_def cu_def)

lemma clean_attrs_href:
  "clean_attrs a (str ''href'') = Some v \<Longrightarrow> \<not> prefix (str ''javascript:'') v"
proof -
  assume "clean_attrs a (str ''href'') = Some v"
  then have "remove_javascript (str ''href'')
      (fold (\<lambda>attr a. if a attr \<noteq> None then removeAttribute attr a else a) dangerousAttributes a)
      (str ''href'') = Some v"
    by (simp add: clean_attrs_def Let_def remove_javascript_other href_src_distinct)
  then show ?thesis by (rule remove_javascript_self)
qed

lemma clean_attrs_src:
  "clean_attrs a (str ''src'') = Some v \<Longrightarrow> \<not> prefix (str ''javascript:'') v"
  unfolding clean_attrs_def Let_def by (rule remove_javascript_self)

lemma sanitize_dom_reached_safe:
  assumes "e \<in> set (all_elements (sanitize_dom forest))"
  shows "tag e \<notin> set dangerousElements"
    and "\<forall>x \<in> set dangerousAttributes. attrs e x = None"
    and "\<forall>v. attrs e (str ''href'') = Some v \<longrightarrow> \<not> prefix (str ''javascript:'') v"
    and "\<forall>v. attrs e (str ''src'') = Some v \<longrightarrow> \<not> prefix (str ''javascript:'') v"
proof -
  from assms obtain e0 where e0: "e0 \<in> set (all_elements (remove_dangerous forest))"
    "tag e = tag e0" "attrs e = clean_attrs (attrs e0)"
    unfolding sanitize_dom_def using clean_forest_elements by blast
  show "tag e \<notin> set dangerousElements"
    using remove_dangerous_tags[OF e0(1)] e0(2) by simp
  show "\<forall>x \<in> set dangerousAttributes. attrs e x = None"
    using e0(3) clean_attrs_handlers by simp
  show "\<forall>v. attrs e (str ''href'') = Some v \<longrightarrow> \<not> prefix (str ''javascript:'') v"
    using e0(3) clean_attrs_href by metis
  show "\<forall>v. attrs e (str ''src'') = Some v \<longrightarrow> \<not> prefix (str ''javascript:'') v"
    using e0(3) clean_attrs_src by metis
qed

lemmas sanitize_eval =
  sanitize_dom_def remove_dangerous_def dangerousElements_def all_elements_def all_written_def
  clean_attrs_def dangerousAttributes_def removeAttribute_def remove_javascript_def
  str_def cu_def

text \<open>
  Claim C5. The sanitizer removes the listed elements and attributes from the elements
  that \<open>querySelectorAll\<close> reaches, the descendants of \<open>tempDiv\<close>
  (\<open>sanitize_dom_reached_safe\<close>). It does not reach template contents, which the
  serialisation writes out. For the fragment
  \<open><template><script>alert(1)</script><p onclick="x()">hi</p></template>\<close> the parser
  builds a \<open>template\<close> element whose template contents are the script and the
  paragraph. \<open>querySelectorAll\<close> lists the \<open>template\<close> element only, the tree is handed
  to the serialiser as it was, and what is written out still holds the script element
  and the \<open>onclick\<close> attribute. The same two elements outside a \<open>template\<close> are handled:
  the script is removed and the paragraph loses its \<open>onclick\<close>.
\<close>

theorem sanitizer_keeps_template_contents:
  "map tag (all_elements
      [Element (str ''template'') Map.empty []
         [Element (str ''script'') Map.empty [TextNode (str ''alert(1)'')] [],
          Element (str ''p'') [str ''onclick'' \<mapsto> str ''x()''] [TextNode (str ''hi'')] []]])
     = [str ''template'']
   \<and> map template_contents (sanitize_dom
      [Element (str ''template'') Map.empty []
         [Element (str ''script'') Map.empty [TextNode (str ''alert(1)'')] [],
          Element (str ''p'') [str ''onclick'' \<mapsto> str ''x()''] [TextNode (str ''hi'')] []]])
     = [[Element (str ''script'') Map.empty [TextNode (str ''alert(1)'')] [],
         Element (str ''p'') [str ''onclick'' \<mapsto> str ''x()''] [TextNode (str ''hi'')] []]]
   \<and> map tag (all_written (sanitize_dom
      [Element (str ''template'') Map.empty []
         [Element (str ''script'') Map.empty [TextNode (str ''alert(1)'')] [],
          Element (str ''p'') [str ''onclick'' \<mapsto> str ''x()''] [TextNode (str ''hi'')] []]]))
     = [str ''template'', str ''script'', str ''p'']
   \<and> map (\<lambda>e. attrs e (str ''onclick'')) (all_written (sanitize_dom
      [Element (str ''template'') Map.empty []
         [Element (str ''script'') Map.empty [TextNode (str ''alert(1)'')] [],
          Element (str ''p'') [str ''onclick'' \<mapsto> str ''x()''] [TextNode (str ''hi'')] []]]))
     = [None, None, Some (str ''x()'')]
   \<and> map tag (all_written (sanitize_dom
      [Element (str ''script'') Map.empty [TextNode (str ''alert(1)'')] [],
       Element (str ''p'') [str ''onclick'' \<mapsto> str ''x()''] [TextNode (str ''hi'')] []]))
     = [str ''p'']
   \<and> map (\<lambda>e. attrs e (str ''onclick'')) (all_written (sanitize_dom
      [Element (str ''script'') Map.empty [TextNode (str ''alert(1)'')] [],
       Element (str ''p'') [str ''onclick'' \<mapsto> str ''x()''] [TextNode (str ''hi'')] []]))
     = [None]"
  by (simp add: sanitize_eval)

section \<open>Properties of the connection manager\<close>

lemma deliver_torn_down:
  "socket s = Some k \<Longrightarrow> torn_down k \<Longrightarrow> deliver ev s = s"
  by (simp add: deliver_def)

lemma run_events_torn_down:
  "socket s = Some k \<Longrightarrow> torn_down k \<Longrightarrow> run_events evs s = s"
  by (induction evs) (simp_all add: run_events_def deliver_torn_down)

lemma run_events_Cons: "run_events (ev # evs) s = run_events evs (deliver ev s)"
  by (simp add: run_events_def)

lemma run_events_Nil: "run_events [] s = s"
  by (simp add: run_events_def)

text \<open>One failed connection attempt on a live socket.\<close>

lemma deliver_connect_error_live:
  assumes "socket s = Some k" and "\<not> torn_down k"
  shows "deliver EvConnectError s =
     (if reconnectAttempts s + 1 \<ge> 5
      then s\<lparr>isConnected := False, connectionStatus := Failed,
             reconnectAttempts := reconnectAttempts s + 1,
             socket := Some (k\<lparr>torn_down := True\<rparr>)\<rparr>
      else s\<lparr>isConnected := False, connectionStatus := Error,
             reconnectAttempts := reconnectAttempts s + 1\<rparr>)"
  using assms
  by (simp add: deliver_def on_connect_error_def maxReconnectAttempts_def
      socket_disconnect_def Let_def)

lemma failed_closed_stable: "failed_closed s \<Longrightarrow> deliver ev s = s"
  by (auto simp: failed_closed_def deliver_def split: option.splits)

lemma run_events_failed_closed: "failed_closed s \<Longrightarrow> run_events evs s = s"
  by (induction evs) (simp_all add: run_events_def failed_closed_stable)

lemma connect_errors_progress:
  assumes "socket s = Some k" and "\<not> torn_down k" and "reconnectAttempts s < 5"
  shows "failed_closed (run_events (replicate j EvConnectError) s)
     \<or> (reconnectAttempts s + j < 5
         \<and> reconnectAttempts (run_events (replicate j EvConnectError) s) = reconnectAttempts s + j
         \<and> (\<exists>k'. socket (run_events (replicate j EvConnectError) s) = Some k' \<and> \<not> torn_down k')
         \<and> (0 < j \<longrightarrow> connectionStatus (run_events (replicate j EvConnectError) s) = Error
                      \<and> \<not> isConnected (run_events (replicate j EvConnectError) s)))"
  using assms
proof (induction j arbitrary: s k)
  case 0
  then show ?case by (simp add: run_events_Nil)
next
  case (Suc j)
  let ?s1 = "deliver EvConnectError s"
  have run: "run_events (replicate (Suc j) EvConnectError) s
      = run_events (replicate j EvConnectError) ?s1"
    by (simp add: run_events_Cons)
  show ?case
  proof (cases "reconnectAttempts s + 1 \<ge> 5")
    case True
    then have "failed_closed ?s1"
      using deliver_connect_error_live[OF Suc.prems(1,2)] Suc.prems(1)
      by (simp add: failed_closed_def)
    then show ?thesis using run by (simp only: run_events_failed_closed simp_thms)
  next
    case False
    then have s1: "?s1 = s\<lparr>isConnected := False, connectionStatus := Error,
             reconnectAttempts := reconnectAttempts s + 1\<rparr>"
      using deliver_connect_error_live[OF Suc.prems(1,2)] by simp
    have live: "socket ?s1 = Some k" "reconnectAttempts ?s1 < 5"
      "reconnectAttempts ?s1 = reconnectAttempts s + 1"
      "connectionStatus ?s1 = Error" "\<not> isConnected ?s1"
      using s1 Suc.prems(1) False by simp_all
    from Suc.IH[OF live(1) Suc.prems(2) live(2)]
    show ?thesis
    proof
      assume "failed_closed (run_events (replicate j EvConnectError) ?s1)"
      then show ?thesis using run by simp
    next
      assume a: "reconnectAttempts ?s1 + j < 5
         \<and> reconnectAttempts (run_events (replicate j EvConnectError) ?s1) = reconnectAttempts ?s1 + j
         \<and> (\<exists>k'. socket (run_events (replicate j EvConnectError) ?s1) = Some k' \<and> \<not> torn_down k')
         \<and> (0 < j \<longrightarrow> connectionStatus (run_events (replicate j EvConnectError) ?s1) = Error
                      \<and> \<not> isConnected (run_events (replicate j EvConnectError) ?s1))"
      show ?thesis
      proof (cases "j = 0")
        case True
        then show ?thesis using a live run by (simp add: run_events_Nil)
      next
        case False
        then show ?thesis using a live(3) run by simp
      qed
    qed
  qed
qed

lemma five_errors_failed_closed:
  assumes "socket s = Some k" and "\<not> torn_down k"
  shows "failed_closed (run_events (replicate 5 EvConnectError) s)"
proof -
  let ?s1 = "deliver EvConnectError s"
  have five: "replicate 5 EvConnectError = EvConnectError # replicate 4 EvConnectError"
    by (simp add: eval_nat_numeral)
  have run: "run_events (replicate 5 EvConnectError) s
      = run_events (replicate 4 EvConnectError) ?s1"
    by (simp only: five run_events_Cons)
  show ?thesis
  proof (cases "reconnectAttempts s + 1 \<ge> 5")
    case True
    then have "failed_closed ?s1"
      using deliver_connect_error_live[OF assms] assms(1)
      by (simp add: failed_closed_def)
    then show ?thesis using run by (simp only: run_events_failed_closed simp_thms)
  next
    case False
    then have s1: "?s1 = s\<lparr>isConnected := False, connectionStatus := Error,
             reconnectAttempts := reconnectAttempts s + 1\<rparr>"
      using deliver_connect_error_live[OF assms] by simp
    have live: "socket ?s1 = Some k" "reconnectAttempts ?s1 < 5"
      "reconnectAttempts ?s1 = reconnectAttempts s + 1"
      using s1 assms(1) False by simp_all
    from connect_errors_progress[OF live(1) assms(2) live(2), of 4] live(3)
    have "failed_closed (run_events (replicate 4 EvConnectError) ?s1)" by simp
    then show ?thesis using run by simp
  qed
qed

lemma run_events_append:
  "run_events (xs @ ys) s = run_events ys (run_events xs s)"
  by (simp add: run_events_def)

lemma live_progress:
  assumes "socket s = Some k" and "\<not> torn_down k" and "reconnectAttempts s + j < 5"
  shows "reconnectAttempts (run_events (replicate j EvConnectError) s) = reconnectAttempts s + j
     \<and> socket (run_events (replicate j EvConnectError) s) = Some k
     \<and> (0 < j \<longrightarrow> connectionStatus (run_events (replicate j EvConnectError) s) = Error
                  \<and> \<not> isConnected (run_events (replicate j EvConnectError) s))"
  using assms
proof (induction j arbitrary: s)
  case 0
  then show ?case by (simp add: run_events_Nil)
next
  case (Suc j)
  let ?s1 = "deliver EvConnectError s"
  have run: "run_events (replicate (Suc j) EvConnectError) s
      = run_events (replicate j EvConnectError) ?s1"
    by (simp add: run_events_Cons)
  have s1: "?s1 = s\<lparr>isConnected := False, connectionStatus := Error,
             reconnectAttempts := reconnectAttempts s + 1\<rparr>"
    using deliver_connect_error_live[OF Suc.prems(1,2)] Suc.prems(3) by simp
  have live: "socket ?s1 = Some k" "reconnectAttempts ?s1 + j < 5"
    "reconnectAttempts ?s1 = reconnectAttempts s + 1"
    "connectionStatus ?s1 = Error" "\<not> isConnected ?s1"
    using s1 Suc.prems(1,3) by simp_all
  show ?case
  proof (cases "j = 0")
    case True
    then show ?thesis using live run by (simp add: run_events_Nil)
  next
    case False
    then show ?thesis using Suc.IH[OF live(1) Suc.prems(2) live(2)] live(3) run by simp
  qed
qed

lemma five_errors_from_zero:
  assumes "socket s = Some k" and "\<not> torn_down k" and "reconnectAttempts s = 0"
  shows "reconnectAttempts (run_events (replicate 5 EvConnectError) s) = 5"
proof -
  let ?s4 = "run_events (replicate 4 EvConnectError) s"
  have five: "replicate 5 EvConnectError = replicate 4 EvConnectError @ [EvConnectError]"
    by (simp add: eval_nat_numeral)
  have run: "run_events (replicate 5 EvConnectError) s = deliver EvConnectError ?s4"
    by (simp only: five run_events_append run_events_Cons run_events_Nil)
  have s4: "reconnectAttempts ?s4 = 4" "socket ?s4 = Some k"
    using live_progress[OF assms(1,2), of 4] assms(3) by simp_all
  show ?thesis
    using deliver_connect_error_live[OF s4(2) assms(2)] s4(1) run by simp
qed

text \<open>
  Claim C1. From the state that \<open>connect\<close> leaves (status connecting, a live socket),
  five \<open>connect_error\<close> events in a row end in status failed with the socket torn down,
  and after that no transport event changes the hook any more, so the connection is not
  re-established without a new \<open>connect\<close>. When the counter starts at 0 the first four
  events leave the status at error and the fifth brings the counter to 5. Every
  \<open>connect_error\<close> adds one to the counter; \<open>reconnect\<close> and \<open>connect\<close> set the status
  to connected and the counter to 0.
\<close>

theorem five_connect_errors_reach_failed:
  "(connectionStatus s = Connecting \<and> socket s = Some k \<and> \<not> torn_down k \<longrightarrow>
      connectionStatus (run_events (replicate 5 EvConnectError) s) = Failed
      \<and> \<not> isConnected (run_events (replicate 5 EvConnectError) s)
      \<and> (\<exists>k'. socket (run_events (replicate 5 EvConnectError) s) = Some k' \<and> torn_down k')
      \<and> (\<forall>evs. run_events evs (run_events (replicate 5 EvConnectError) s)
                  = run_events (replicate 5 EvConnectError) s)
      \<and> (reconnectAttempts s = 0 \<longrightarrow>
            reconnectAttempts (run_events (replicate 5 EvConnectError) s) = 5
            \<and> (\<forall>j. 0 < j \<and> j < 5 \<longrightarrow>
                  connectionStatus (run_events (replicate j EvConnectError) s) = Error)))
   \<and> reconnectAttempts (on_connect_error s) = reconnectAttempts s + 1
   \<and> reconnectAttempts (on_reconnect attemptNumber s) = 0
   \<and> connectionStatus (on_reconnect attemptNumber s) = Connected
   \<and> reconnectAttempts (on_connect sessionId s) = 0
   \<and> connectionStatus (on_connect sessionId s) = Connected"
proof -
  have main: "connectionStatus s = Connecting \<and> socket s = Some k \<and> \<not> torn_down k \<longrightarrow>
      connectionStatus (run_events (replicate 5 EvConnectError) s) = Failed
      \<and> \<not> isConnected (run_events (replicate 5 EvConnectError) s)
      \<and> (\<exists>k'. socket (run_events (replicate 5 EvConnectError) s) = Some k' \<and> torn_down k')
      \<and> (\<forall>evs. run_events evs (run_events (replicate 5 EvConnectError) s)
                  = run_events (replicate 5 EvConnectError) s)
      \<and> (reconnectAttempts s = 0 \<longrightarrow>
            reconnectAttempts (run_events (replicate 5 EvConnectError) s) = 5
            \<and> (\<forall>j. 0 < j \<and> j < 5 \<longrightarrow>
                  connectionStatus (run_events (replicate j EvConnectError) s) = Error))"
  proof (intro impI, elim conjE)
    assume live: "socket s = Some k" "\<not> torn_down k"
    let ?s5 = "run_events (replicate 5 EvConnectError) s"
    have fc: "failed_closed ?s5"
      using live by (rule five_errors_failed_closed)
    then have a: "connectionStatus ?s5 = Failed" "\<not> isConnected ?s5"
      "\<exists>k'. socket ?s5 = Some k' \<and> torn_down k'"
      by (auto simp: failed_closed_def split: option.splits)
    have b: "\<forall>evs. run_events evs ?s5 = ?s5"
      using fc by (simp add: run_events_failed_closed)
    have c: "reconnectAttempts s = 0 \<longrightarrow>
            reconnectAttempts ?s5 = 5
            \<and> (\<forall>j. 0 < j \<and> j < 5 \<longrightarrow>
                  connectionStatus (run_events (replicate j EvConnectError) s) = Error)"
      using five_errors_from_zero[OF live] live_progress[OF live] by simp
    from a b c show "connectionStatus ?s5 = Failed
      \<and> \<not> isConnected ?s5
      \<and> (\<exists>k'. socket ?s5 = Some k' \<and> torn_down k')
      \<and> (\<forall>evs. run_events evs ?s5 = ?s5)
      \<and> (reconnectAttempts s = 0 \<longrightarrow>
            reconnectAttempts ?s5 = 5
            \<and> (\<forall>j. 0 < j \<and> j < 5 \<longrightarrow>
                  connectionStatus (run_events (replicate j EvConnectError) s) = Error))"
      by blast
  qed
  have counter: "reconnectAttempts (on_connect_error s) = reconnectAttempts s + 1"
    by (simp add: on_connect_error_def Let_def)
  have reset: "reconnectAttempts (on_reconnect attemptNumber s) = 0"
    "connectionStatus (on_reconnect attemptNumber s) = Connected"
    "reconnectAttempts (on_connect sessionId s) = 0"
    "connectionStatus (on_connect sessionId s) = Connected"
    by (simp_all add: on_reconnect_def on_connect_def)
  from main counter reset show ?thesis by blast
qed

theorem five_connect_errors_reach_failed_witness:
  "connectionStatus (connect initial_hook) = Connecting
   \<and> socket (connect initial_hook) = Some \<lparr>emitted = [], torn_down = False\<rparr>
   \<and> \<not> torn_down \<lparr>emitted = [], torn_down = False\<rparr>
   \<and> reconnectAttempts (connect initial_hook) = 0
   \<and> connectionStatus (run_events (replicate 5 EvConnectError) (connect initial_hook)) = Failed
   \<and> reconnectAttempts (run_events (replicate 5 EvConnectError) (connect initial_hook)) = 5
   \<and> connectionStatus (run_events (replicate 3 EvConnectError) (connect initial_hook)) = Error
   \<and> run_events [EvReconnect 1, EvConnect (str ''session_1_abc'')]
        (run_events (replicate 5 EvConnectError) (connect initial_hook))
       = run_events (replicate 5 EvConnectError) (connect initial_hook)"
proof -
  have pre: "connectionStatus (connect initial_hook) = Connecting"
    "socket (connect initial_hook) = Some \<lparr>emitted = [], torn_down = False\<rparr>"
    "\<not> torn_down \<lparr>emitted = [], torn_down = False\<rparr>"
    "reconnectAttempts (connect initial_hook) = 0"
    by (simp_all add: connect_def initial_hook_def)
  from pre five_connect_errors_reach_failed[of "connect initial_hook"
      "\<lparr>emitted = [], torn_down = False\<rparr>"]
  show ?thesis by simp
qed

lemma handlers_set_flag_and_status:
  "isConnected (on_connect sessionId s) = (connectionStatus (on_connect sessionId s) = Connected)"
  "isConnected (on_connect_error s) = (connectionStatus (on_connect_error s) = Connected)"
  "isConnected (on_disconnect reason s) = (connectionStatus (on_disconnect reason s) = Connected)"
  "isConnected (on_reconnect attemptNumber s)
     = (connectionStatus (on_reconnect attemptNumber s) = Connected)"
  by (simp_all add: on_connect_def on_connect_error_def on_disconnect_def on_reconnect_def
      Let_def)

lemma handlers_keep_flag:
  "isConnected (on_reconnect_failed s) = isConnected s"
  "isConnected (on_connection_established session_id s) = isConnected s"
  by (simp_all add: on_reconnect_failed_def on_connection_established_def
      split: option.splits)

text \<open>
  Claim C2. \<open>sendQuery\<close> tests the hook's own record of being connected: the socket and
  the flag \<open>isConnected\<close>. When the hook has no socket or the flag is false, the promise
  is rejected with the not-connected error and nothing is emitted. When the hook holds
  a socket, the flag is true and the trimmed text is empty (a lone no-break space is
  such a text), it is rejected with the empty-query error. Otherwise the socket emits
  one more packet, the \<open>user-query\<close> with the trimmed text and the current session id,
  nothing else in the hook changes, and the promise is resolved by the call itself,
  before any answer.

  The status is not what is tested. After \<open>connect\<close> is called on a connected hook the
  status is connecting while the flag is still true, and \<open>sendQuery\<close> sends.
\<close>

theorem sendQuery_outcomes:
  "(socket s = None \<or> \<not> isConnected s \<longrightarrow>
      sendQuery query s = Inl (JsError (str ''Not connected to server'')))
   \<and> (socket s = Some k \<and> isConnected s \<and> trim query = [] \<longrightarrow>
      sendQuery query s = Inl (JsError (str ''Query cannot be empty'')))
   \<and> (socket s = Some k \<and> isConnected s \<longrightarrow>
      sendQuery [0xA0] s = Inl (JsError (str ''Query cannot be empty'')))
   \<and> (socket s = Some k \<and> isConnected s \<and> trim query \<noteq> [] \<longrightarrow>
      sendQuery query s
        = Inr (s\<lparr>socket :=
                 Some (k\<lparr>emitted := emitted k @ [UserQuery (trim query) (currentSessionId s)]\<rparr>)\<rparr>))"
proof -
  have closed: "socket s = None \<or> \<not> isConnected s \<longrightarrow>
      sendQuery query s = Inl (JsError (str ''Not connected to server''))"
    by (auto simp: sendQuery_def split: option.splits)
  have blank: "socket s = Some k \<and> isConnected s \<and> trim query = [] \<longrightarrow>
      sendQuery query s = Inl (JsError (str ''Query cannot be empty''))"
    by (simp add: sendQuery_def truthy_def)
  have nbsp: "socket s = Some k \<and> isConnected s \<longrightarrow>
      sendQuery [0xA0] s = Inl (JsError (str ''Query cannot be empty''))"
    by (simp add: sendQuery_def truthy_def trim_def is_ws_def)
  have sent: "socket s = Some k \<and> isConnected s \<and> trim query \<noteq> [] \<longrightarrow>
      sendQuery query s
        = Inr (s\<lparr>socket :=
                 Some (k\<lparr>emitted := emitted k @ [UserQuery (trim query) (currentSessionId s)]\<rparr>)\<rparr>)"
    by (simp add: sendQuery_def socket_emit_def emit_def truthy_def)
  from closed blank nbsp sent show ?thesis by blast
qed

theorem sendQuery_outcomes_witness:
  "sendQuery (str ''  hi '') initial_hook = Inl (JsError (str ''Not connected to server''))
   \<and> \<not> isConnected (connect initial_hook)
   \<and> sendQuery (str ''hi'') (connect initial_hook)
       = Inl (JsError (str ''Not connected to server''))
   \<and> socket (on_connect (str ''s1'') (connect initial_hook))
       = Some \<lparr>emitted = [CreateSession (str ''s1'')], torn_down = False\<rparr>
   \<and> isConnected (on_connect (str ''s1'') (connect initial_hook))
   \<and> trim (str ''   '') = []
   \<and> sendQuery (str ''   '') (on_connect (str ''s1'') (connect initial_hook))
       = Inl (JsError (str ''Query cannot be empty''))
   \<and> trim (str ''  hi '') = str ''hi''
   \<and> sendQuery (str ''  hi '') (on_connect (str ''s1'') (connect initial_hook))
       = Inr ((on_connect (str ''s1'') (connect initial_hook))
               \<lparr>socket := Some \<lparr>emitted = [CreateSession (str ''s1''),
                                             UserQuery (str ''hi'') (Some (str ''s1''))],
                                torn_down = False\<rparr>\<rparr>)"
proof -
  let ?c = "on_connect (str ''s1'') (connect initial_hook)"
  let ?k = "\<lparr>emitted = [CreateSession (str ''s1'')], torn_down = False\<rparr>"
  have a: "socket initial_hook = None"
    by (simp add: initial_hook_def)
  have b: "\<not> isConnected (connect initial_hook)"
    by (simp add: connect_def initial_hook_def)
  have c: "socket ?c = Some ?k" "isConnected ?c" "currentSessionId ?c = Some (str ''s1'')"
    by (simp_all add: on_connect_def connect_def initial_hook_def emit_def)
  have t: "trim (str ''   '') = []" "trim (str ''  hi '') = str ''hi''"
    by (simp_all add: trim_def is_ws_def str_def cu_def)
  have ne: "str ''hi'' \<noteq> []"
    by (simp add: str_def)
  show ?thesis
    using a b c t ne
      sendQuery_outcomes[where s = initial_hook and query = "str ''  hi ''" and k = ?k]
      sendQuery_outcomes[where s = "connect initial_hook" and query = "str ''hi''" and k = ?k]
      sendQuery_outcomes[where s = ?c and k = ?k and query = "str ''   ''"]
      sendQuery_outcomes[where s = ?c and k = ?k and query = "str ''  hi ''"]
    by simp
qed

theorem sendQuery_status_counterexample:
  "connectionStatus (connect (on_connect (str ''s1'') (connect initial_hook))) = Connecting
   \<and> connectionStatus (connect (on_connect (str ''s1'') (connect initial_hook))) \<noteq> Connected
   \<and> sendQuery (str ''hi'') (connect (on_connect (str ''s1'') (connect initial_hook)))
       \<noteq> Inl (JsError (str ''Not connected to server''))
   \<and> sendQuery (str ''hi'') (connect (on_connect (str ''s1'') (connect initial_hook)))
       = Inr ((connect (on_connect (str ''s1'') (connect initial_hook)))
               \<lparr>socket := Some \<lparr>emitted = [UserQuery (str ''hi'') (Some (str ''s1''))],
                                torn_down = False\<rparr>\<rparr>)"
  by (simp add: sendQuery_def socket_emit_def emit_def truthy_def connect_def on_connect_def
      initial_hook_def trim_def is_ws_def str_def cu_def)

section \<open>Properties of the conversation controller\<close>

text \<open>
  Claim C9. When the trimmed text is empty (the empty text, or a lone no-break space),
  or the hook's flag \<open>isConnected\<close> is false, \<open>handleSendMessage\<close> returns at its first
  line: the whole state is as before. No message is appended, \<open>isLoading\<close> and the timer
  are untouched, and the hook (with the packets its socket has emitted) is the same, so
  no query was dispatched. In every other case the call does append a message.

  The status is not what is tested. After \<open>connect\<close> is called on a connected hook the
  status is connecting while the flag is still true, and a submitted text is taken.
\<close>

theorem submit_noop_when_blank_or_disconnected:
  "(trim message = [] \<or> \<not> isConnected (hook s) \<longrightarrow>
      handleSendMessage now message s = s)
   \<and> handleSendMessage now [] s = s
   \<and> handleSendMessage now [0xA0] s = s
   \<and> (trim message \<noteq> [] \<and> isConnected (hook s) \<longrightarrow>
        length (messages (handleSendMessage now message s)) > length (messages s))"
proof -
  have noop: "trim message = [] \<or> \<not> isConnected (hook s) \<longrightarrow>
      handleSendMessage now message s = s"
    by (simp add: handleSendMessage_def truthy_def)
  have blank: "handleSendMessage now [] s = s" "handleSendMessage now [0xA0] s = s"
    by (simp_all add: handleSendMessage_def truthy_def trim_def is_ws_def)
  have sends: "trim message \<noteq> [] \<and> isConnected (hook s) \<longrightarrow>
      length (messages (handleSendMessage now message s)) > length (messages s)"
    by (simp add: handleSendMessage_def truthy_def Let_def split: sum.splits)
  from noop blank sends show ?thesis by blast
qed

theorem submit_noop_when_blank_or_disconnected_witness:
  "trim (str ''  '') = []
   \<and> handleSendMessage 7 (str ''  '')
        \<lparr>messages = [], currentInput = str ''  '', isLoading = False, loadingTimeout = None,
         hook = on_connect (str ''s1'') (connect initial_hook)\<rparr>
       = \<lparr>messages = [], currentInput = str ''  '', isLoading = False, loadingTimeout = None,
          hook = on_connect (str ''s1'') (connect initial_hook)\<rparr>
   \<and> \<not> isConnected (connect initial_hook)
   \<and> handleSendMessage 7 (str ''status?'')
        \<lparr>messages = [], currentInput = [], isLoading = False, loadingTimeout = None,
         hook = connect initial_hook\<rparr>
       = \<lparr>messages = [], currentInput = [], isLoading = False, loadingTimeout = None,
          hook = connect initial_hook\<rparr>"
proof -
  have t: "trim (str ''  '') = []"
    by (simp add: trim_def is_ws_def str_def cu_def)
  have c: "\<not> isConnected (connect initial_hook)"
    by (simp add: connect_def initial_hook_def)
  show ?thesis
    using t c
      submit_noop_when_blank_or_disconnected[where message = "str ''  ''" and now = 7 and s =
        "\<lparr>messages = [], currentInput = str ''  '', isLoading = False, loadingTimeout = None,
          hook = on_connect (str ''s1'') (connect initial_hook)\<rparr>"]
      submit_noop_when_blank_or_disconnected[where message = "str ''status?''" and now = 7 and s =
        "\<lparr>messages = [], currentInput = [], isLoading = False, loadingTimeout = None,
          hook = connect initial_hook\<rparr>"]
    by simp
qed

theorem submit_status_counterexample:
  "connectionStatus (connect (on_connect (str ''s1'') (connect initial_hook))) = Connecting
   \<and> connectionStatus (connect (on_connect (str ''s1'') (connect initial_hook))) \<noteq> Connected
   \<and> handleSendMessage 7 (str ''status?'')
        \<lparr>messages = [], currentInput = [], isLoading = False, loadingTimeout = None,
         hook = connect (on_connect (str ''s1'') (connect initial_hook))\<rparr>
       \<noteq> \<lparr>messages = [], currentInput = [], isLoading = False, loadingTimeout = None,
           hook = connect (on_connect (str ''s1'') (connect initial_hook))\<rparr>
   \<and> messages (handleSendMessage 7 (str ''status?'')
        \<lparr>messages = [], currentInput = [], isLoading = False, loadingTimeout = None,
         hook = connect (on_connect (str ''s1'') (connect initial_hook))\<rparr>)
       = [\<lparr>msg_id = 7, msg_type = User, msg_content = Text (str ''status?''),
           msg_timestamp = 7\<rparr>]
   \<and> isLoading (handleSendMessage 7 (str ''status?'')
        \<lparr>messages = [], currentInput = [], isLoading = False, loadingTimeout = None,
         hook = connect (on_connect (str ''s1'') (connect initial_hook))\<rparr>)
   \<and> loadingTimeout (handleSendMessage 7 (str ''status?'')
        \<lparr>messages = [], currentInput = [], isLoading = False, loadingTimeout = None,
         hook = connect (on_connect (str ''s1'') (connect initial_hook))\<rparr>) = Some 30000
   \<and> map_option emitted (socket (hook (handleSendMessage 7 (str ''status?'')
        \<lparr>messages = [], currentInput = [], isLoading = False, loadingTimeout = None,
         hook = connect (on_connect (str ''s1'') (connect initial_hook))\<rparr>)))
       = Some [UserQuery (str ''status?'') (Some (str ''s1''))]"
proof -
  let ?h = "connect (on_connect (str ''s1'') (connect initial_hook))"
  let ?s = "\<lparr>messages = [], currentInput = [], isLoading = False, loadingTimeout = None,
         hook = ?h\<rparr>"
  have st: "connectionStatus ?h = Connecting" "isConnected ?h"
    "socket ?h = Some \<lparr>emitted = [], torn_down = False\<rparr>"
    "currentSessionId ?h = Some (str ''s1'')"
    by (simp_all add: connect_def on_connect_def initial_hook_def)
  have t: "trim (str ''status?'') = str ''status?''" "str ''status?'' \<noteq> []"
    by (simp_all add: trim_def is_ws_def str_def cu_def)
  have run: "handleSendMessage 7 (str ''status?'') ?s
      = \<lparr>messages = [\<lparr>msg_id = 7, msg_type = User, msg_content = Text (str ''status?''),
                        msg_timestamp = 7\<rparr>],
         currentInput = [], isLoading = True, loadingTimeout = Some 30000,
         hook = ?h\<lparr>socket := Some \<lparr>emitted = [UserQuery (str ''status?'') (Some (str ''s1''))],
                                    torn_down = False\<rparr>\<rparr>\<rparr>"
    using st t
    by (simp add: handleSendMessage_def sendQuery_def socket_emit_def emit_def truthy_def
        Let_def)
  show ?thesis
    unfolding run using st by simp
qed

text \<open>
  Claim C6. The safety timer is armed by \<open>handleSendMessage\<close> with a delay of 30000
  milliseconds. When it expires, its callback sets \<open>isLoading\<close> to false, clears the
  timer, and appends one message: an error message with the timeout notice. The timer
  is then no longer armed, so it cannot expire a second time. A \<open>query_response\<close> that
  arrives afterwards is handled like any other: one assistant message that wraps the
  envelope is appended after the timeout message, and nothing is removed.
\<close>

theorem timeout_then_late_response:
  "isLoading (on_loading_timeout now s) = False
   \<and> loadingTimeout (on_loading_timeout now s) = None
   \<and> messages (on_loading_timeout now s)
       = messages s @ [\<lparr>msg_id = now + 2, msg_type = ErrorMessage,
                        msg_content = Text (str ''Request timed out. Please try again.''),
                        msg_timestamp = now\<rparr>]
   \<and> app_step later TimerExpired (on_loading_timeout now s) = on_loading_timeout now s
   \<and> messages (handleQueryResponse later data (on_loading_timeout now s))
       = messages s @ [\<lparr>msg_id = now + 2, msg_type = ErrorMessage,
                        msg_content = Text (str ''Request timed out. Please try again.''),
                        msg_timestamp = now\<rparr>,
                      \<lparr>msg_id = later, msg_type = Assistant, msg_content = Envelope data,
                        msg_timestamp = later\<rparr>]
   \<and> isLoading (handleQueryResponse later data (on_loading_timeout now s)) = False
   \<and> (truthy (trim message) \<and> isConnected (hook s) \<and> socket (hook s) = Some k \<longrightarrow>
        (let s1 = handleSendMessage sent message s;
             s2 = app_step now TimerExpired s1;
             s3 = app_step later (QueryResponse data) s2
         in isLoading s1 \<and> loadingTimeout s1 = Some 30000
            \<and> \<not> isLoading s2
            \<and> messages s2
                = messages s @ [\<lparr>msg_id = sent, msg_type = User, msg_content = Text message,
                                 msg_timestamp = sent\<rparr>,
                               \<lparr>msg_id = now + 2, msg_type = ErrorMessage,
                                 msg_content = Text (str ''Request timed out. Please try again.''),
                                 msg_timestamp = now\<rparr>]
            \<and> \<not> isLoading s3
            \<and> messages s3
                = messages s2 @ [\<lparr>msg_id = later, msg_type = Assistant,
                                  msg_content = Envelope data, msg_timestamp = later\<rparr>]))"
proof -
  have expiry: "isLoading (on_loading_timeout now s) = False"
    "loadingTimeout (on_loading_timeout now s) = None"
    "messages (on_loading_timeout now s)
       = messages s @ [\<lparr>msg_id = now + 2, msg_type = ErrorMessage,
                        msg_content = Text (str ''Request timed out. Please try again.''),
                        msg_timestamp = now\<rparr>]"
    by (simp_all add: on_loading_timeout_def timeout_notice_def Let_def)
  have once: "app_step later TimerExpired (on_loading_timeout now s) = on_loading_timeout now s"
    by (simp add: app_step_def expiry(2))
  have late: "messages (handleQueryResponse later data (on_loading_timeout now s))
       = messages s @ [\<lparr>msg_id = now + 2, msg_type = ErrorMessage,
                        msg_content = Text (str ''Request timed out. Please try again.''),
                        msg_timestamp = now\<rparr>,
                      \<lparr>msg_id = later, msg_type = Assistant, msg_content = Envelope data,
                        msg_timestamp = later\<rparr>]"
    "isLoading (handleQueryResponse later data (on_loading_timeout now s)) = False"
    by (simp_all add: handleQueryResponse_def expiry(3) Let_def)
  have e2e: "truthy (trim message) \<and> isConnected (hook s) \<and> socket (hook s) = Some k \<longrightarrow>
        (let s1 = handleSendMessage sent message s;
             s2 = app_step now TimerExpired s1;
             s3 = app_step later (QueryResponse data) s2
         in isLoading s1 \<and> loadingTimeout s1 = Some 30000
            \<and> \<not> isLoading s2
            \<and> messages s2
                = messages s @ [\<lparr>msg_id = sent, msg_type = User, msg_content = Text message,
                                 msg_timestamp = sent\<rparr>,
                               \<lparr>msg_id = now + 2, msg_type = ErrorMessage,
                                 msg_content = Text (str ''Request timed out. Please try again.''),
                                 msg_timestamp = now\<rparr>]
            \<and> \<not> isLoading s3
            \<and> messages s3
                = messages s2 @ [\<lparr>msg_id = later, msg_type = Assistant,
                                  msg_content = Envelope data, msg_timestamp = later\<rparr>])"
    by (simp add: handleSendMessage_def sendQuery_def socket_emit_def app_step_def
        on_loading_timeout_def handleQueryResponse_def timeout_notice_def Let_def)
  from expiry once late e2e show ?thesis by blast
qed

theorem timeout_then_late_response_witness:
  "truthy (trim (str ''What is success rate''))
   \<and> isConnected (on_connect (str ''s1'') (connect initial_hook))
   \<and> socket (on_connect (str ''s1'') (connect initial_hook))
       = Some \<lparr>emitted = [CreateSession (str ''s1'')], torn_down = False\<rparr>
   \<and> map msg_type
        (messages
          (app_step 40000
            (QueryResponse
              \<lparr>success = True, html_summary = None, key_insights = None, markdown_data = None,
               summary_time_ms = None, prompt_tokens = None, completion_tokens = None,
               data_points_analyzed = None, error = None, summary = Some (str ''42%'')\<rparr>)
            (app_step 30010 TimerExpired
              (handleSendMessage 10 (str ''What is success rate'')
                \<lparr>messages = [], currentInput = [], isLoading = False, loadingTimeout = None,
                 hook = on_connect (str ''s1'') (connect initial_hook)\<rparr>))))
       = [User, ErrorMessage, Assistant]"
proof -
  let ?h = "on_connect (str ''s1'') (connect initial_hook)"
  let ?k = "\<lparr>emitted = [CreateSession (str ''s1'')], torn_down = False\<rparr>"
  have t: "truthy (trim (str ''What is success rate''))"
    by (simp add: truthy_def trim_def is_ws_def str_def cu_def)
  have c: "isConnected ?h" "socket ?h = Some ?k"
    by (simp_all add: on_connect_def connect_def initial_hook_def emit_def)
  show ?thesis
    using t c
      timeout_then_late_response[of 30010
        "\<lparr>messages = [], currentInput = [], isLoading = False, loadingTimeout = None,
          hook = ?h\<rparr>"
        40000
        "\<lparr>success = True, html_summary = None, key_insights = None, markdown_data = None,
          summary_time_ms = None, prompt_tokens = None, completion_tokens = None,
          data_points_analyzed = None, error = None, summary = Some (str ''42%'')\<rparr>"
        "str ''What is success rate''" ?k 10]
    by (simp add: Let_def)
qed

section \<open>Properties of the response display\<close>

text \<open>
  Claim C8. The body of a response holds the error block exactly when \<open>success\<close> is
  false. Its text is the envelope's \<open>error\<close>; when that is absent (missing or the empty
  string, which JavaScript's \<open>||\<close> passes over) it is the \<open>summary\<close>; when that is
  absent too it is the fixed default message.
\<close>

theorem error_block_only_on_failure:
  "(success data \<longrightarrow> (\<forall>text. response_body rt data \<noteq> ErrorBody text))
   \<and> (\<not> success data \<and> error data = Some e \<and> e \<noteq> [] \<longrightarrow>
        response_body rt data = ErrorBody e)
   \<and> (\<not> success data \<and> (error data = None \<or> error data = Some [])
        \<and> summary data = Some m \<and> m \<noteq> [] \<longrightarrow>
        response_body rt data = ErrorBody m)
   \<and> (\<not> success data \<and> (error data = None \<or> error data = Some [])
        \<and> (summary data = None \<or> summary data = Some []) \<longrightarrow>
        response_body rt data
          = ErrorBody (str ''An unknown error occurred while processing your request.''))"
  by (auto simp: response_body_def present_def truthy_def unknown_error_def)

theorem error_block_only_on_failure_witness:
  "response_body ascii_runtime
      \<lparr>success = False, html_summary = None, key_insights = None, markdown_data = None,
       summary_time_ms = None, prompt_tokens = None, completion_tokens = None,
       data_points_analyzed = None, error = Some (str ''SQL failed''),
       summary = Some (str ''summary'')\<rparr>
     = ErrorBody (str ''SQL failed'')
   \<and> response_body ascii_runtime
      \<lparr>success = False, html_summary = None, key_insights = None, markdown_data = None,
       summary_time_ms = None, prompt_tokens = None, completion_tokens = None,
       data_points_analyzed = None, error = None, summary = Some (str ''summary'')\<rparr>
     = ErrorBody (str ''summary'')
   \<and> response_body ascii_runtime
      \<lparr>success = False, html_summary = None, key_insights = None, markdown_data = None,
       summary_time_ms = None, prompt_tokens = None, completion_tokens = None,
       data_points_analyzed = None, error = None, summary = None\<rparr>
     = ErrorBody (str ''An unknown error occurred while processing your request.'')
   \<and> response_body ascii_runtime
      \<lparr>success = True, html_summary = None, key_insights = None, markdown_data = None,
       summary_time_ms = None, prompt_tokens = None, completion_tokens = None,
       data_points_analyzed = None, error = Some (str ''ignored''), summary = None\<rparr>
     \<noteq> ErrorBody (str ''ignored'')"
proof -
  have ne: "str ''SQL failed'' \<noteq> []" "str ''summary'' \<noteq> []"
    by (simp_all add: str_def)
  show ?thesis
    using ne
      error_block_only_on_failure[where rt = ascii_runtime
        and e = "str ''SQL failed''" and m = "str ''summary''" and data =
        "\<lparr>success = False, html_summary = None, key_insights = None, markdown_data = None,
          summary_time_ms = None, prompt_tokens = None, completion_tokens = None,
          data_points_analyzed = None, error = Some (str ''SQL failed''),
          summary = Some (str ''summary'')\<rparr>"]
      error_block_only_on_failure[where rt = ascii_runtime
        and e = "str ''SQL failed''" and m = "str ''summary''" and data =
        "\<lparr>success = False, html_summary = None, key_insights = None, markdown_data = None,
          summary_time_ms = None, prompt_tokens = None, completion_tokens = None,
          data_points_analyzed = None, error = None, summary = Some (str ''summary'')\<rparr>"]
      error_block_only_on_failure[where rt = ascii_runtime
        and e = "str ''SQL failed''" and m = "str ''summary''" and data =
        "\<lparr>success = False, html_summary = None, key_insights = None, markdown_data = None,
          summary_time_ms = None, prompt_tokens = None, completion_tokens = None,
          data_points_analyzed = None, error = None, summary = None\<rparr>"]
      error_block_only_on_failure[where rt = ascii_runtime
        and e = "str ''SQL failed''" and m = "str ''summary''" and data =
        "\<lparr>success = True, html_summary = None, key_insights = None, markdown_data = None,
          summary_time_ms = None, prompt_tokens = None, completion_tokens = None,
          data_points_analyzed = None, error = Some (str ''ignored''), summary = None\<rparr>"]
    by simp
qed

text \<open>
  Claim C10. For a successful envelope the data-table section is rendered exactly when
  \<open>markdown_data\<close> is present (not missing and not the empty string) and differs from the
  sentinel text; the section then holds the table made from it. An envelope whose
  \<open>markdown_data\<close> is the sentinel text has no table section.
\<close>

theorem table_section_unless_sentinel:
  "(success data \<and> markdown_data data = Some md \<and> md \<noteq> []
      \<and> md \<noteq> str ''No data table available for non-analytics queries'' \<longrightarrow>
        data_table_section (response_body rt data)
          = Some (convertMarkdownToTable rt (JString md :: unit jsval)))
   \<and> (success data
      \<and> (markdown_data data = None \<or> markdown_data data = Some []
          \<or> markdown_data data
               = Some (str ''No data table available for non-analytics queries'')) \<longrightarrow>
        data_table_section (response_body rt data) = None)"
  by (auto simp: response_body_def present_def truthy_def no_table_sentinel_def
      split: option.splits)

theorem table_section_unless_sentinel_witness:
  "data_table_section (response_body ascii_runtime
      \<lparr>success = True, html_summary = None, key_insights = None,
       markdown_data = Some (str ''No data table available for non-analytics queries''),
       summary_time_ms = None, prompt_tokens = None, completion_tokens = None,
       data_points_analyzed = None, error = None, summary = None\<rparr>) = None
   \<and> data_table_section (response_body ascii_runtime
      \<lparr>success = True, html_summary = None, key_insights = None,
       markdown_data = Some (str ''No data table available''),
       summary_time_ms = None, prompt_tokens = None, completion_tokens = None,
       data_points_analyzed = None, error = None, summary = None\<rparr>)
     = Some (convertMarkdownToTable ascii_runtime
               (JString (str ''No data table available'') :: unit jsval))"
proof -
  have ne: "str ''No data table available'' \<noteq> []"
    "str ''No data table available''
       \<noteq> str ''No data table available for non-analytics queries''"
    by (simp_all add: str_def)
  show ?thesis
    using ne
      table_section_unless_sentinel[where rt = ascii_runtime
        and md = "str ''No data table available''" and data =
        "\<lparr>success = True, html_summary = None, key_insights = None,
          markdown_data = Some (str ''No data table available for non-analytics queries''),
          summary_time_ms = None, prompt_tokens = None, completion_tokens = None,
          data_points_analyzed = None, error = None, summary = None\<rparr>"]
      table_section_unless_sentinel[where rt = ascii_runtime
        and md = "str ''No data table available''" and data =
        "\<lparr>success = True, html_summary = None, key_insights = None,
          markdown_data = Some (str ''No data table available''),
          summary_time_ms = None, prompt_tokens = None, completion_tokens = None,
          data_points_analyzed = None, error = None, summary = None\<rparr>"]
    by (simp del: convertMarkdownToTable.simps)
qed

end
